theory Spec2Isabelle
  imports Main
begin

section \<open>Python strings\<close>

text \<open>
  A Python \<^verbatim>\<open>str\<close> is a sequence of Unicode code points and \<^verbatim>\<open>len\<close> counts code
  points, so a string is a list of code points here. ASCII literals of the source are
  written \<open>lit ''...''\<close>; the three Korean sentinel strings are given by their code points.
\<close>

type_synonym pystr = "nat list"

definition lit :: "string \<Rightarrow> pystr" where
  "lit s = map of_char s"

text \<open>
  \<^verbatim>\<open>str.isspace\<close>, \<^verbatim>\<open>str.strip()\<close> and the \<^verbatim>\<open>\s\<close> class of \<^verbatim>\<open>re\<close> on a \<^verbatim>\<open>str\<close> pattern
  all use the same set of whitespace code points.
\<close>

definition isspace :: "nat \<Rightarrow> bool" where
  "isspace c \<longleftrightarrow>
     (9 \<le> c \<and> c \<le> 13) \<or> (28 \<le> c \<and> c \<le> 32) \<or> c = 133 \<or> c = 160 \<or> c = 5760 \<or>
     (8192 \<le> c \<and> c \<le> 8202) \<or> c = 8232 \<or> c = 8233 \<or> c = 8239 \<or> c = 8287 \<or>
     c = 12288"

text \<open>\<^verbatim>\<open>s.strip()\<close>: leading and trailing whitespace removed.\<close>

definition strip :: "pystr \<Rightarrow> pystr" where
  "strip s = rev (dropWhile isspace (rev (dropWhile isspace s)))"

text \<open>
  \<^verbatim>\<open>re.sub(r'\s+', ' ', s)\<close>: every maximal run of whitespace becomes one space
  (code point 32).
\<close>

function sub_ws :: "pystr \<Rightarrow> pystr" where
  "sub_ws [] = []"
| "sub_ws (c # cs) =
     (if isspace c then 32 # sub_ws (dropWhile isspace cs) else c # sub_ws cs)"
  by pat_completeness auto
termination
  by (relation "measure length") (auto simp: length_dropWhile_le less_Suc_eq_le)

text \<open>Lines 120 and 132: \<^verbatim>\<open>re.sub(r'\s+', ' ', body).strip()\<close>.\<close>

definition normalize :: "pystr \<Rightarrow> pystr" where
  "normalize s = strip (sub_ws s)"

text \<open>
  A string is squeezed when each of its whitespace characters is a space that is not
  followed by another whitespace character.
\<close>

fun squeezed :: "pystr \<Rightarrow> bool" where
  "squeezed [] = True"
| "squeezed [c] = (isspace c \<longrightarrow> c = 32)"
| "squeezed (c # d # cs) =
     ((isspace c \<longrightarrow> c = 32 \<and> \<not> isspace d) \<and> squeezed (d # cs))"

section \<open>String helpers of the Python runtime\<close>

text \<open>\<^verbatim>\<open>s.startswith(p)\<close>, written \<open>starts_with p s\<close>.\<close>

fun starts_with :: "pystr \<Rightarrow> pystr \<Rightarrow> bool" where
  "starts_with [] s = True"
| "starts_with (p # ps) [] = False"
| "starts_with (p # ps) (c # cs) = (p = c \<and> starts_with ps cs)"

text \<open>\<^verbatim>\<open>sub in s\<close> on strings: \<open>sub\<close> occurs in \<open>s\<close> as a contiguous substring.\<close>

fun contains :: "pystr \<Rightarrow> pystr \<Rightarrow> bool" where
  "contains sub [] = (sub = [])"
| "contains sub (c # cs) = (starts_with sub (c # cs) \<or> contains sub cs)"

text \<open>\<^verbatim>\<open>s.split(sep)\<close> for a one-character separator; the result is never empty.\<close>

fun split_on :: "nat \<Rightarrow> pystr \<Rightarrow> pystr list" where
  "split_on sep [] = [[]]"
| "split_on sep (c # cs) =
     (let r = split_on sep cs
      in if c = sep then [] # r else (c # hd r) # tl r)"

text \<open>\<^verbatim>\<open>s.replace(c, '')\<close> for a one-character \<open>c\<close>.\<close>

definition remove_char :: "nat \<Rightarrow> pystr \<Rightarrow> pystr" where
  "remove_char c s = filter (\<lambda>x. x \<noteq> c) s"

text \<open>
  Exceptions of the \<^verbatim>\<open>try\<close> block. \<open>RequestException\<close> stands for
  \<^verbatim>\<open>requests.exceptions.RequestException\<close> and its subclasses, \<open>OtherException\<close> for
  every other subclass of \<^verbatim>\<open>Exception\<close>.
\<close>

datatype request_error = Timeout | ConnectionError | HTTPError nat | OtherRequestError

datatype py_exception =
    RequestException request_error
  | UnicodeDecodeError
  | IndexError
  | OtherException string

text \<open>\<^verbatim>\<open>xs[0]\<close> and \<^verbatim>\<open>xs[-2]\<close>; an index out of range raises \<^verbatim>\<open>IndexError\<close>.\<close>

definition index_first :: "'a list \<Rightarrow> py_exception + 'a" where
  "index_first xs = (case xs of [] \<Rightarrow> Inl IndexError | x # _ \<Rightarrow> Inr x)"

definition index_second_last :: "'a list \<Rightarrow> py_exception + 'a" where
  "index_second_last xs =
     (if 2 \<le> length xs then Inr (xs ! (length xs - 2)) else Inl IndexError)"

section \<open>Regular expressions\<close>

text \<open>
  The fragment of \<^verbatim>\<open>re\<close> that the pattern of line 140 uses: literals, an ordered
  alternation of literals, greedy \<^verbatim>\<open>+\<close> and \<^verbatim>\<open>*\<close> on a character class, sequence, the
  greedy optional \<^verbatim>\<open>?\<close> and one capturing group.
\<close>

datatype rx =
    Lit pystr
  | OneOf "pystr list"
  | Plus "nat \<Rightarrow> bool"
  | Star "nat \<Rightarrow> bool"
  | Seq rx rx
  | Opt rx
  | Group rx

text \<open>
  A matcher state is the input still to be read and the text of group 1, if the group has
  matched. \<open>rx_match r st\<close> lists every way for \<open>r\<close> to match at the head of the input, in
  the order in which the backtracking matcher of \<^verbatim>\<open>re\<close> tries them: a greedy repetition
  tries the longest run first, an optional part is tried before it is skipped, and
  alternatives are tried from left to right.
\<close>

type_synonym mstate = "pystr \<times> pystr option"

primrec rx_match :: "rx \<Rightarrow> mstate \<Rightarrow> mstate list" where
  "rx_match (Lit l) st =
     (if starts_with l (fst st) then [(drop (length l) (fst st), snd st)] else [])"
| "rx_match (OneOf ls) st =
     map (\<lambda>l. (drop (length l) (fst st), snd st))
       (filter (\<lambda>l. starts_with l (fst st)) ls)"
| "rx_match (Plus P) st =
     map (\<lambda>n. (drop n (fst st), snd st))
       (rev [1 ..< Suc (length (takeWhile P (fst st)))])"
| "rx_match (Star P) st =
     map (\<lambda>n. (drop n (fst st), snd st))
       (rev [0 ..< Suc (length (takeWhile P (fst st)))])"
| "rx_match (Seq a b) st = concat (map (rx_match b) (rx_match a st))"
| "rx_match (Opt a) st = rx_match a st @ [st]"
| "rx_match (Group a) st =
     map (\<lambda>st'. (fst st', Some (take (length (fst st) - length (fst st')) (fst st))))
       (rx_match a st)"

text \<open>
  \<^verbatim>\<open>re.search(r, s)\<close>: the first match at the leftmost position where there is one.
  The result is \<open>None\<close> when there is no match, and otherwise the text of group 1
  (\<open>None\<close> when the group took no part in the match).
\<close>

fun re_search :: "rx \<Rightarrow> pystr \<Rightarrow> pystr option option" where
  "re_search r [] = (case rx_match r ([], None) of [] \<Rightarrow> None | st # _ \<Rightarrow> Some (snd st))"
| "re_search r (c # cs) =
     (case rx_match r (c # cs, None) of [] \<Rightarrow> re_search r cs | st # _ \<Rightarrow> Some (snd st))"

section \<open>Source identifier (lines 139 to 151)\<close>

definition NO_TITLE :: pystr where
  "NO_TITLE = [51228, 47785, 32, 50630, 51020]"

definition NO_BODY :: pystr where
  "NO_BODY = [48376, 47928, 32, 50630, 51020]"

definition UNKNOWN_SOURCE :: pystr where
  "UNKNOWN_SOURCE = [52636, 52376, 32, 48520, 47749]"

text \<open>The class \<^verbatim>\<open>[a-zA-Z0-9-]\<close> and the class \<^verbatim>\<open>[^/]\<close>.\<close>

definition label_char :: "nat \<Rightarrow> bool" where
  "label_char c \<longleftrightarrow>
     (97 \<le> c \<and> c \<le> 122) \<or> (65 \<le> c \<and> c \<le> 90) \<or> (48 \<le> c \<and> c \<le> 57) \<or> c = 45"

definition not_slash :: "nat \<Rightarrow> bool" where
  "not_slash c \<longleftrightarrow> c \<noteq> 47"

definition suffixes :: "pystr list" where
  "suffixes = map lit [''co.kr'', ''com'', ''net'', ''org'', ''kr'', ''io'', ''dev'', ''ai'',
     ''app'', ''info'', ''biz'', ''tv'', ''news'', ''me'', ''blog'', ''cc'', ''xyz'']"

text \<open>
  The pattern
  \<^verbatim>\<open>https?://(?:www\.)?([a-zA-Z0-9-]+\.(?:co\.kr|com|...|xyz)[^/]*)/?\<close>.
\<close>

definition source_rx :: rx where
  "source_rx =
     Seq (Lit (lit ''http'')) (Seq (Opt (Lit (lit ''s''))) (Seq (Lit (lit ''://''))
       (Seq (Opt (Lit (lit ''www.'')))
         (Seq (Group (Seq (Plus label_char) (Seq (Lit (lit ''.''))
                 (Seq (OneOf suffixes) (Star not_slash)))))
              (Opt (Lit (lit ''/'')))))))"

definition extract_source :: "pystr \<Rightarrow> py_exception + pystr" where
  "extract_source url =
     (let source =
        (case re_search source_rx url of
           Some (Some domain_full) \<Rightarrow>
             if domain_full \<noteq> [] then
               if contains (lit ''.co.kr'') domain_full
               then index_first (split_on 46 domain_full)
               else index_second_last (split_on 46 domain_full)
             else Inr UNKNOWN_SOURCE
         | _ \<Rightarrow> Inr UNKNOWN_SOURCE)
      in case source of
           Inl e \<Rightarrow> Inl e
         | Inr src \<Rightarrow>
             (let src' = strip (remove_char 45 src)
              in Inr (if src' = [] then UNKNOWN_SOURCE else src')))"

text \<open>
  \<open>heads r st y\<close>: the first way that the matcher finds for \<open>r\<close> at \<open>st\<close> ends in state \<open>y\<close>.
\<close>

definition heads :: "rx \<Rightarrow> mstate \<Rightarrow> mstate \<Rightarrow> bool" where
  "heads r st y = (case rx_match r st of [] \<Rightarrow> False | x # _ \<Rightarrow> x = y)"

section \<open>Response and encoding resolution (lines 44 to 64)\<close>

text \<open>
  What \<^verbatim>\<open>requests.get\<close> returns: the status, the headers, the raw body
  (\<^verbatim>\<open>response.content\<close>, bytes as numbers below 256) and the baseline decode of the body
  that \<^verbatim>\<open>requests\<close> computes itself (\<^verbatim>\<open>response.text\<close>).
\<close>

record response =
  status_code :: nat
  headers :: "(pystr \<times> pystr) list"
  content :: "nat list"
  text_of :: pystr

text \<open>
  \<^verbatim>\<open>response.raise_for_status()\<close> raises \<^verbatim>\<open>HTTPError\<close> for the client and server
  error statuses, 400 to 599, and returns for every other status.
\<close>

definition raise_for_status :: "response \<Rightarrow> py_exception + unit" where
  "raise_for_status r =
     (if 400 \<le> status_code r \<and> status_code r < 600
      then Inl (RequestException (HTTPError (status_code r))) else Inr ())"

text \<open>
  \<^verbatim>\<open>str.lower()\<close> on a header value. The header values of \<^verbatim>\<open>requests\<close> are decoded as
  Latin-1, so their code points are below 256; there the upper-case letters are A to Z
  and 192 to 222 without 215, each 32 below its lower-case letter.
\<close>

definition lower_char :: "nat \<Rightarrow> nat" where
  "lower_char c =
     (if (65 \<le> c \<and> c \<le> 90) \<or> (192 \<le> c \<and> c \<le> 222 \<and> c \<noteq> 215) then c + 32 else c)"

definition lower :: "pystr \<Rightarrow> pystr" where
  "lower s = map lower_char s"

text \<open>
  \<^verbatim>\<open>response.headers.get(name, default)\<close>; the header names of \<^verbatim>\<open>requests\<close> compare
  without regard to case.
\<close>

definition headers_get :: "(pystr \<times> pystr) list \<Rightarrow> pystr \<Rightarrow> pystr \<Rightarrow> pystr" where
  "headers_get hs name dflt =
     (case find (\<lambda>kv. lower (fst kv) = lower name) hs of
        None \<Rightarrow> dflt | Some kv \<Rightarrow> snd kv)"

text \<open>
  \<^verbatim>\<open>bytes.decode(encoding, errors=...)\<close>. A codec looks at the bytes at the head of a
  non-empty input and either decodes one code point from the first \<open>Suc n\<close> bytes
  (\<open>Decoded u n\<close>) or finds the first \<open>Suc n\<close> bytes invalid (\<open>Invalid n\<close>); the table of
  the \<^verbatim>\<open>euc-kr\<close> codec is a parameter. With \<^verbatim>\<open>errors='strict'\<close> an invalid sequence raises
  \<^verbatim>\<open>UnicodeDecodeError\<close>; with \<^verbatim>\<open>errors='replace'\<close> it becomes U+FFFD (65533) and decoding
  goes on behind it.
\<close>

datatype step = Decoded nat nat | Invalid nat

type_synonym codec = "nat list \<Rightarrow> step"

datatype errors = Strict | Replace

function decode :: "codec \<Rightarrow> errors \<Rightarrow> nat list \<Rightarrow> py_exception + pystr" where
  "decode cd e [] = Inr []"
| "decode cd e (b # bs) =
     (case cd (b # bs) of
        Decoded u n \<Rightarrow>
          (case decode cd e (drop n bs) of Inl x \<Rightarrow> Inl x | Inr s \<Rightarrow> Inr (u # s))
      | Invalid n \<Rightarrow>
          (case e of
             Strict \<Rightarrow> Inl UnicodeDecodeError
           | Replace \<Rightarrow>
               (case decode cd e (drop n bs) of Inl x \<Rightarrow> Inl x | Inr s \<Rightarrow> Inr (65533 # s))))"
  by pat_completeness auto
termination
  by (relation "measure (\<lambda>(cd, e, bs). length bs)") auto

text \<open>Messages shown to the user through \<^verbatim>\<open>st.info\<close>, \<^verbatim>\<open>st.warning\<close> and \<^verbatim>\<open>st.error\<close>.\<close>

datatype notice =
    Info_redecoded
  | Warning_euckr_failed
  | Error_request py_exception
  | Warning_unexpected py_exception

text \<open>The test of line 57.\<close>

definition needs_euckr :: "pystr \<Rightarrow> pystr \<Rightarrow> bool" where
  "needs_euckr content_type url \<longleftrightarrow>
     contains (lit ''charset=euc-kr'') content_type \<or> contains (lit ''dt.co.kr'') url"

text \<open>
  Lines 53 to 64: the text handed to the parser, and the messages shown on the way. The
  handler of line 62 catches \<^verbatim>\<open>UnicodeDecodeError\<close> only.
\<close>

definition resolve_encoding ::
  "codec \<Rightarrow> response \<Rightarrow> pystr \<Rightarrow> py_exception + pystr \<times> notice list" where
  "resolve_encoding euc_kr r url =
     (let text_content = text_of r;
          content_type = lower (headers_get (headers r) (lit ''Content-Type'') [])
      in if needs_euckr content_type url then
           (case decode euc_kr Replace (content r) of
              Inr s \<Rightarrow> Inr (s, [Info_redecoded])
            | Inl UnicodeDecodeError \<Rightarrow> Inr (text_content, [Warning_euckr_failed])
            | Inl x \<Rightarrow> Inl x)
         else Inr (text_content, []))"

section \<open>The \<^verbatim>\<open>euc-kr\<close> codec\<close>

text \<open>
  The decoder of \<^verbatim>\<open>bytes.decode('euc-kr')\<close> in CPython. Its KS X 1001 table is given
  row by row: one row for each lead byte from A1 to FD, with the code point for each
  trail byte from A1 to FE and 0 where the table has no entry.
\<close>

definition ksx1001_A1 :: "nat list" where
  "ksx1001_A1 =
    [12288, 12289, 12290, 183, 8229, 8230, 168, 12291, 173, 8213, 8741, 65340, 8764, 8216, 8217,
     8220, 8221, 12308, 12309, 12296, 12297, 12298, 12299, 12300, 12301, 12302, 12303, 12304,
     12305, 177, 215, 247, 8800, 8804, 8805, 8734, 8756, 176, 8242, 8243, 8451, 8491, 65504,
     65505, 65509, 9794, 9792, 8736, 8869, 8978, 8706, 8711, 8801, 8786, 167, 8251, 9734, 9733,
     9675, 9679, 9678, 9671, 9670, 9633, 9632, 9651, 9650, 9661, 9660, 8594, 8592, 8593, 8595,
     8596, 12307, 8810, 8811, 8730, 8765, 8733, 8757, 8747, 8748, 8712, 8715, 8838, 8839, 8834,
     8835, 8746, 8745, 8743, 8744, 65506]"

definition ksx1001_A2 :: "nat list" where
  "ksx1001_A2 =
    [8658, 8660, 8704, 8707, 180, 65374, 711, 728, 733, 730, 729, 184, 731, 161, 191, 720, 8750,
     8721, 8719, 164, 8457, 8240, 9665, 9664, 9655, 9654, 9828, 9824, 9825, 9829, 9831, 9827,
     8857, 9672, 9635, 9680, 9681, 9618, 9636, 9637, 9640, 9639, 9638, 9641, 9832, 9743, 9742,
     9756, 9758, 182, 8224, 8225, 8597, 8599, 8601, 8598, 8600, 9837, 9833, 9834, 9836, 12927,
     12828, 8470, 13255, 8482, 13250, 13272, 8481, 8364, 174, 0, 0, 0, 0, 0, 0, 0, 0, 0, 0, 0, 0,
     0, 0, 0, 0, 0, 0, 0, 0, 0, 0, 0]"

definition ksx1001_A3 :: "nat list" where
  "ksx1001_A3 =
    [65281, 65282, 65283, 65284, 65285, 65286, 65287, 65288, 65289, 65290, 65291, 65292, 65293,
     65294, 65295, 65296, 65297, 65298, 65299, 65300, 65301, 65302, 65303, 65304, 65305, 65306,
     65307, 65308, 65309, 65310, 65311, 65312, 65313, 65314, 65315, 65316, 65317, 65318, 65319,
     65320, 65321, 65322, 65323, 65324, 65325, 65326, 65327, 65328, 65329, 65330, 65331, 65332,
     65333, 65334, 65335, 65336, 65337, 65338, 65339, 65510, 65341, 65342, 65343, 65344, 65345,
     65346, 65347, 65348, 65349, 65350, 65351, 65352, 65353, 65354, 65355, 65356, 65357, 65358,
     65359, 65360, 65361, 65362, 65363, 65364, 65365, 65366, 65367, 65368, 65369, 65370, 65371,
     65372, 65373, 65507]"

definition ksx1001_A4 :: "nat list" where
  "ksx1001_A4 =
    [12593, 12594, 12595, 12596, 12597, 12598, 12599, 12600, 12601, 12602, 12603, 12604, 12605,
     12606, 12607, 12608, 12609, 12610, 12611, 12612, 12613, 12614, 12615, 12616, 12617, 12618,
     12619, 12620, 12621, 12622, 12623, 12624, 12625, 12626, 12627, 12628, 12629, 12630, 12631,
     12632, 12633, 12634, 12635, 12636, 12637, 12638, 12639, 12640, 12641, 12642, 12643, 0,
     12645, 12646, 12647, 12648, 12649, 12650, 12651, 12652, 12653, 12654, 12655, 12656, 12657,
     12658, 12659, 12660, 12661, 12662, 12663, 12664, 12665, 12666, 12667, 12668, 12669, 12670,
     12671, 12672, 12673, 12674, 12675, 12676, 12677, 12678, 12679, 12680, 12681, 12682, 12683,
     12684, 12685, 12686]"

definition ksx1001_A5 :: "nat list" where
  "ksx1001_A5 =
    [8560, 8561, 8562, 8563, 8564, 8565, 8566, 8567, 8568, 8569, 0, 0, 0, 0, 0, 8544, 8545, 8546,
     8547, 8548, 8549, 8550, 8551, 8552, 8553, 0, 0, 0, 0, 0, 0, 0, 913, 914, 915, 916, 917, 918,
     919, 920, 921, 922, 923, 924, 925, 926, 927, 928, 929, 931, 932, 933, 934, 935, 936, 937, 0,
     0, 0, 0, 0, 0, 0, 0, 945, 946, 947, 948, 949, 950, 951, 952, 953, 954, 955, 956, 957, 958,
     959, 960, 961, 963, 964, 965, 966, 967, 968, 969, 0, 0, 0, 0, 0, 0]"

definition ksx1001_A6 :: "nat list" where
  "ksx1001_A6 =
    [9472, 9474, 9484, 9488, 9496, 9492, 9500, 9516, 9508, 9524, 9532, 9473, 9475, 9487, 9491,
     9499, 9495, 9507, 9523, 9515, 9531, 9547, 9504, 9519, 9512, 9527, 9535, 9501, 9520, 9509,
     9528, 9538, 9490, 9489, 9498, 9497, 9494, 9493, 9486, 9485, 9502, 9503, 9505, 9506, 9510,
     9511, 9513, 9514, 9517, 9518, 9521, 9522, 9525, 9526, 9529, 9530, 9533, 9534, 9536, 9537,
     9539, 9540, 9541, 9542, 9543, 9544, 9545, 9546, 0, 0, 0, 0, 0, 0, 0, 0, 0, 0, 0, 0, 0, 0, 0,
     0, 0, 0, 0, 0, 0, 0, 0, 0, 0, 0]"

definition ksx1001_A7 :: "nat list" where
  "ksx1001_A7 =
    [13205, 13206, 13207, 8467, 13208, 13252, 13219, 13220, 13221, 13222, 13209, 13210, 13211,
     13212, 13213, 13214, 13215, 13216, 13217, 13218, 13258, 13197, 13198, 13199, 13263, 13192,
     13193, 13256, 13223, 13224, 13232, 13233, 13234, 13235, 13236, 13237, 13238, 13239, 13240,
     13241, 13184, 13185, 13186, 13187, 13188, 13242, 13243, 13244, 13245, 13246, 13247, 13200,
     13201, 13202, 13203, 13204, 8486, 13248, 13249, 13194, 13195, 13196, 13270, 13253, 13229,
     13230, 13231, 13275, 13225, 13226, 13227, 13228, 13277, 13264, 13267, 13251, 13257, 13276,
     13254, 0, 0, 0, 0, 0, 0, 0, 0, 0, 0, 0, 0, 0, 0, 0]"

definition ksx1001_A8 :: "nat list" where
  "ksx1001_A8 =
    [198, 208, 170, 294, 0, 306, 0, 319, 321, 216, 338, 186, 222, 358, 330, 0, 12896, 12897,
     12898, 12899, 12900, 12901, 12902, 12903, 12904, 12905, 12906, 12907, 12908, 12909, 12910,
     12911, 12912, 12913, 12914, 12915, 12916, 12917, 12918, 12919, 12920, 12921, 12922, 12923,
     9424, 9425, 9426, 9427, 9428, 9429, 9430, 9431, 9432, 9433, 9434, 9435, 9436, 9437, 9438,
     9439, 9440, 9441, 9442, 9443, 9444, 9445, 9446, 9447, 9448, 9449, 9312, 9313, 9314, 9315,
     9316, 9317, 9318, 9319, 9320, 9321, 9322, 9323, 9324, 9325, 9326, 189, 8531, 8532, 188, 190,
     8539, 8540, 8541, 8542]"

definition ksx1001_A9 :: "nat list" where
  "ksx1001_A9 =
    [230, 273, 240, 295, 305, 307, 312, 320, 322, 248, 339, 223, 254, 359, 331, 329, 12800,
     12801, 12802, 12803, 12804, 12805, 12806, 12807, 12808, 12809, 12810, 12811, 12812, 12813,
     12814, 12815, 12816, 12817, 12818, 12819, 12820, 12821, 12822, 12823, 12824, 12825, 12826,
     12827, 9372, 9373, 9374, 9375, 9376, 9377, 9378, 9379, 9380, 9381, 9382, 9383, 9384, 9385,
     9386, 9387, 9388, 9389, 9390, 9391, 9392, 9393, 9394, 9395, 9396, 9397, 9332, 9333, 9334,
     9335, 9336, 9337, 9338, 9339, 9340, 9341, 9342, 9343, 9344, 9345, 9346, 185, 178, 179, 8308,
     8319, 8321, 8322, 8323, 8324]"

definition ksx1001_AA :: "nat list" where
  "ksx1001_AA =
    [12353, 12354, 12355, 12356, 12357, 12358, 12359, 12360, 12361, 12362, 12363, 12364, 12365,
     12366, 12367, 12368, 12369, 12370, 12371, 12372, 12373, 12374, 12375, 12376, 12377, 12378,
     12379, 12380, 12381, 12382, 12383, 12384, 12385, 12386, 12387, 12388, 12389, 12390, 12391,
     12392, 12393, 12394, 12395, 12396, 12397, 12398, 12399, 12400, 12401, 12402, 12403, 12404,
     12405, 12406, 12407, 12408, 12409, 12410, 12411, 12412, 12413, 12414, 12415, 12416, 12417,
     12418, 12419, 12420, 12421, 12422, 12423, 12424, 12425, 12426, 12427, 12428, 12429, 12430,
     12431, 12432, 12433, 12434, 12435, 0, 0, 0, 0, 0, 0, 0, 0, 0, 0, 0]"

definition ksx1001_AB :: "nat list" where
  "ksx1001_AB =
    [12449, 12450, 12451, 12452, 12453, 12454, 12455, 12456, 12457, 12458, 12459, 12460, 12461,
     12462, 12463, 12464, 12465, 12466, 12467, 12468, 12469, 12470, 12471, 12472, 12473, 12474,
     12475, 12476, 12477, 12478, 12479, 12480, 12481, 12482, 12483, 12484, 12485, 12486, 12487,
     12488, 12489, 12490, 12491, 12492, 12493, 12494, 12495, 12496, 12497, 12498, 12499, 12500,
     12501, 12502, 12503, 12504, 12505, 12506, 12507, 12508, 12509, 12510, 12511, 12512, 12513,
     12514, 12515, 12516, 12517, 12518, 12519, 12520, 12521, 12522, 12523, 12524, 12525, 12526,
     12527, 12528, 12529, 12530, 12531, 12532, 12533, 12534, 0, 0, 0, 0, 0, 0, 0, 0]"

definition ksx1001_AC :: "nat list" where
  "ksx1001_AC =
    [1040, 1041, 1042, 1043, 1044, 1045, 1025, 1046, 1047, 1048, 1049, 1050, 1051, 1052, 1053,
     1054, 1055, 1056, 1057, 1058, 1059, 1060, 1061, 1062, 1063, 1064, 1065, 1066, 1067, 1068,
     1069, 1070, 1071, 0, 0, 0, 0, 0, 0, 0, 0, 0, 0, 0, 0, 0, 0, 0, 1072, 1073, 1074, 1075, 1076,
     1077, 1105, 1078, 1079, 1080, 1081, 1082, 1083, 1084, 1085, 1086, 1087, 1088, 1089, 1090,
     1091, 1092, 1093, 1094, 1095, 1096, 1097, 1098, 1099, 1100, 1101, 1102, 1103, 0, 0, 0, 0, 0,
     0, 0, 0, 0, 0, 0, 0, 0]"

definition ksx1001_B0 :: "nat list" where
  "ksx1001_B0 =
    [44032, 44033, 44036, 44039, 44040, 44041, 44042, 44048, 44049, 44050, 44051, 44052, 44053,
     44054, 44055, 44057, 44058, 44059, 44060, 44061, 44064, 44068, 44076, 44077, 44079, 44080,
     44081, 44088, 44089, 44092, 44096, 44107, 44109, 44116, 44120, 44124, 44144, 44145, 44148,
     44151, 44152, 44154, 44160, 44161, 44163, 44164, 44165, 44166, 44169, 44170, 44171, 44172,
     44176, 44180, 44188, 44189, 44191, 44192, 44193, 44200, 44201, 44202, 44204, 44207, 44208,
     44216, 44217, 44219, 44220, 44221, 44225, 44228, 44232, 44236, 44245, 44247, 44256, 44257,
     44260, 44263, 44264, 44266, 44268, 44271, 44272, 44273, 44275, 44277, 44278, 44284, 44285,
     44288, 44292, 44294]"

definition ksx1001_B1 :: "nat list" where
  "ksx1001_B1 =
    [44300, 44301, 44303, 44305, 44312, 44316, 44320, 44329, 44332, 44333, 44340, 44341, 44344,
     44348, 44356, 44357, 44359, 44361, 44368, 44372, 44376, 44385, 44387, 44396, 44397, 44400,
     44403, 44404, 44405, 44406, 44411, 44412, 44413, 44415, 44417, 44418, 44424, 44425, 44428,
     44432, 44444, 44445, 44452, 44471, 44480, 44481, 44484, 44488, 44496, 44497, 44499, 44508,
     44512, 44516, 44536, 44537, 44540, 44543, 44544, 44545, 44552, 44553, 44555, 44557, 44564,
     44592, 44593, 44596, 44599, 44600, 44602, 44608, 44609, 44611, 44613, 44614, 44618, 44620,
     44621, 44622, 44624, 44628, 44630, 44636, 44637, 44639, 44640, 44641, 44645, 44648, 44649,
     44652, 44656, 44664]"

definition ksx1001_B2 :: "nat list" where
  "ksx1001_B2 =
    [44665, 44667, 44668, 44669, 44676, 44677, 44684, 44732, 44733, 44734, 44736, 44740, 44748,
     44749, 44751, 44752, 44753, 44760, 44761, 44764, 44776, 44779, 44781, 44788, 44792, 44796,
     44807, 44808, 44813, 44816, 44844, 44845, 44848, 44850, 44852, 44860, 44861, 44863, 44865,
     44866, 44867, 44872, 44873, 44880, 44892, 44893, 44900, 44901, 44921, 44928, 44932, 44936,
     44944, 44945, 44949, 44956, 44984, 44985, 44988, 44992, 44999, 45000, 45001, 45003, 45005,
     45006, 45012, 45020, 45032, 45033, 45040, 45041, 45044, 45048, 45056, 45057, 45060, 45068,
     45072, 45076, 45084, 45085, 45096, 45124, 45125, 45128, 45130, 45132, 45134, 45139, 45140,
     45141, 45143, 45145]"

definition ksx1001_B3 :: "nat list" where
  "ksx1001_B3 =
    [45149, 45180, 45181, 45184, 45188, 45196, 45197, 45199, 45201, 45208, 45209, 45210, 45212,
     45215, 45216, 45217, 45218, 45224, 45225, 45227, 45228, 45229, 45230, 45231, 45233, 45235,
     45236, 45237, 45240, 45244, 45252, 45253, 45255, 45256, 45257, 45264, 45265, 45268, 45272,
     45280, 45285, 45320, 45321, 45323, 45324, 45328, 45330, 45331, 45336, 45337, 45339, 45340,
     45341, 45347, 45348, 45349, 45352, 45356, 45364, 45365, 45367, 45368, 45369, 45376, 45377,
     45380, 45384, 45392, 45393, 45396, 45397, 45400, 45404, 45408, 45432, 45433, 45436, 45440,
     45442, 45448, 45449, 45451, 45453, 45458, 45459, 45460, 45464, 45468, 45480, 45516, 45520,
     45524, 45532, 45533]"

definition ksx1001_B4 :: "nat list" where
  "ksx1001_B4 =
    [45535, 45544, 45545, 45548, 45552, 45561, 45563, 45565, 45572, 45573, 45576, 45579, 45580,
     45588, 45589, 45591, 45593, 45600, 45620, 45628, 45656, 45660, 45664, 45672, 45673, 45684,
     45685, 45692, 45700, 45701, 45705, 45712, 45713, 45716, 45720, 45721, 45722, 45728, 45729,
     45731, 45733, 45734, 45738, 45740, 45744, 45748, 45768, 45769, 45772, 45776, 45778, 45784,
     45785, 45787, 45789, 45794, 45796, 45797, 45798, 45800, 45803, 45804, 45805, 45806, 45807,
     45811, 45812, 45813, 45815, 45816, 45817, 45818, 45819, 45823, 45824, 45825, 45828, 45832,
     45840, 45841, 45843, 45844, 45845, 45852, 45908, 45909, 45910, 45912, 45915, 45916, 45918,
     45919, 45924, 45925]"

definition ksx1001_B5 :: "nat list" where
  "ksx1001_B5 =
    [45927, 45929, 45931, 45934, 45936, 45937, 45940, 45944, 45952, 45953, 45955, 45956, 45957,
     45964, 45968, 45972, 45984, 45985, 45992, 45996, 46020, 46021, 46024, 46027, 46028, 46030,
     46032, 46036, 46037, 46039, 46041, 46043, 46045, 46048, 46052, 46056, 46076, 46096, 46104,
     46108, 46112, 46120, 46121, 46123, 46132, 46160, 46161, 46164, 46168, 46176, 46177, 46179,
     46181, 46188, 46208, 46216, 46237, 46244, 46248, 46252, 46261, 46263, 46265, 46272, 46276,
     46280, 46288, 46293, 46300, 46301, 46304, 46307, 46308, 46310, 46316, 46317, 46319, 46321,
     46328, 46356, 46357, 46360, 46363, 46364, 46372, 46373, 46375, 46376, 46377, 46378, 46384,
     46385, 46388, 46392]"

definition ksx1001_B6 :: "nat list" where
  "ksx1001_B6 =
    [46400, 46401, 46403, 46404, 46405, 46411, 46412, 46413, 46416, 46420, 46428, 46429, 46431,
     46432, 46433, 46496, 46497, 46500, 46504, 46506, 46507, 46512, 46513, 46515, 46516, 46517,
     46523, 46524, 46525, 46528, 46532, 46540, 46541, 46543, 46544, 46545, 46552, 46572, 46608,
     46609, 46612, 46616, 46629, 46636, 46644, 46664, 46692, 46696, 46748, 46749, 46752, 46756,
     46763, 46764, 46769, 46804, 46832, 46836, 46840, 46848, 46849, 46853, 46888, 46889, 46892,
     46895, 46896, 46904, 46905, 46907, 46916, 46920, 46924, 46932, 46933, 46944, 46948, 46952,
     46960, 46961, 46963, 46965, 46972, 46973, 46976, 46980, 46988, 46989, 46991, 46992, 46993,
     46994, 46998, 46999]"

definition ksx1001_B7 :: "nat list" where
  "ksx1001_B7 =
    [47000, 47001, 47004, 47008, 47016, 47017, 47019, 47020, 47021, 47028, 47029, 47032, 47047,
     47049, 47084, 47085, 47088, 47092, 47100, 47101, 47103, 47104, 47105, 47111, 47112, 47113,
     47116, 47120, 47128, 47129, 47131, 47133, 47140, 47141, 47144, 47148, 47156, 47157, 47159,
     47160, 47161, 47168, 47172, 47185, 47187, 47196, 47197, 47200, 47204, 47212, 47213, 47215,
     47217, 47224, 47228, 47245, 47272, 47280, 47284, 47288, 47296, 47297, 47299, 47301, 47308,
     47312, 47316, 47325, 47327, 47329, 47336, 47337, 47340, 47344, 47352, 47353, 47355, 47357,
     47364, 47384, 47392, 47420, 47421, 47424, 47428, 47436, 47439, 47441, 47448, 47449, 47452,
     47456, 47464, 47465]"

definition ksx1001_B8 :: "nat list" where
  "ksx1001_B8 =
    [47467, 47469, 47476, 47477, 47480, 47484, 47492, 47493, 47495, 47497, 47498, 47501, 47502,
     47532, 47533, 47536, 47540, 47548, 47549, 47551, 47553, 47560, 47561, 47564, 47566, 47567,
     47568, 47569, 47570, 47576, 47577, 47579, 47581, 47582, 47585, 47587, 47588, 47589, 47592,
     47596, 47604, 47605, 47607, 47608, 47609, 47610, 47616, 47617, 47624, 47637, 47672, 47673,
     47676, 47680, 47682, 47688, 47689, 47691, 47693, 47694, 47699, 47700, 47701, 47704, 47708,
     47716, 47717, 47719, 47720, 47721, 47728, 47729, 47732, 47736, 47747, 47748, 47749, 47751,
     47756, 47784, 47785, 47787, 47788, 47792, 47794, 47800, 47801, 47803, 47805, 47812, 47816,
     47832, 47833, 47868]"

definition ksx1001_B9 :: "nat list" where
  "ksx1001_B9 =
    [47872, 47876, 47885, 47887, 47889, 47896, 47900, 47904, 47913, 47915, 47924, 47925, 47926,
     47928, 47931, 47932, 47933, 47934, 47940, 47941, 47943, 47945, 47949, 47951, 47952, 47956,
     47960, 47969, 47971, 47980, 48008, 48012, 48016, 48036, 48040, 48044, 48052, 48055, 48064,
     48068, 48072, 48080, 48083, 48120, 48121, 48124, 48127, 48128, 48130, 48136, 48137, 48139,
     48140, 48141, 48143, 48145, 48148, 48149, 48150, 48151, 48152, 48155, 48156, 48157, 48158,
     48159, 48164, 48165, 48167, 48169, 48173, 48176, 48177, 48180, 48184, 48192, 48193, 48195,
     48196, 48197, 48201, 48204, 48205, 48208, 48221, 48260, 48261, 48264, 48267, 48268, 48270,
     48276, 48277, 48279]"

definition ksx1001_BA :: "nat list" where
  "ksx1001_BA =
    [48281, 48282, 48288, 48289, 48292, 48295, 48296, 48304, 48305, 48307, 48308, 48309, 48316,
     48317, 48320, 48324, 48333, 48335, 48336, 48337, 48341, 48344, 48348, 48372, 48373, 48374,
     48376, 48380, 48388, 48389, 48391, 48393, 48400, 48404, 48420, 48428, 48448, 48456, 48457,
     48460, 48464, 48472, 48473, 48484, 48488, 48512, 48513, 48516, 48519, 48520, 48521, 48522,
     48528, 48529, 48531, 48533, 48537, 48538, 48540, 48548, 48560, 48568, 48596, 48597, 48600,
     48604, 48617, 48624, 48628, 48632, 48640, 48643, 48645, 48652, 48653, 48656, 48660, 48668,
     48669, 48671, 48708, 48709, 48712, 48716, 48718, 48724, 48725, 48727, 48729, 48730, 48731,
     48736, 48737, 48740]"

definition ksx1001_BB :: "nat list" where
  "ksx1001_BB =
    [48744, 48746, 48752, 48753, 48755, 48756, 48757, 48763, 48764, 48765, 48768, 48772, 48780,
     48781, 48783, 48784, 48785, 48792, 48793, 48808, 48848, 48849, 48852, 48855, 48856, 48864,
     48867, 48868, 48869, 48876, 48897, 48904, 48905, 48920, 48921, 48923, 48924, 48925, 48960,
     48961, 48964, 48968, 48976, 48977, 48981, 49044, 49072, 49093, 49100, 49101, 49104, 49108,
     49116, 49119, 49121, 49212, 49233, 49240, 49244, 49248, 49256, 49257, 49296, 49297, 49300,
     49304, 49312, 49313, 49315, 49317, 49324, 49325, 49327, 49328, 49331, 49332, 49333, 49334,
     49340, 49341, 49343, 49344, 49345, 49349, 49352, 49353, 49356, 49360, 49368, 49369, 49371,
     49372, 49373, 49380]"

definition ksx1001_BC :: "nat list" where
  "ksx1001_BC =
    [49381, 49384, 49388, 49396, 49397, 49399, 49401, 49408, 49412, 49416, 49424, 49429, 49436,
     49437, 49438, 49439, 49440, 49443, 49444, 49446, 49447, 49452, 49453, 49455, 49456, 49457,
     49462, 49464, 49465, 49468, 49472, 49480, 49481, 49483, 49484, 49485, 49492, 49493, 49496,
     49500, 49508, 49509, 49511, 49512, 49513, 49520, 49524, 49528, 49541, 49548, 49549, 49550,
     49552, 49556, 49558, 49564, 49565, 49567, 49569, 49573, 49576, 49577, 49580, 49584, 49597,
     49604, 49608, 49612, 49620, 49623, 49624, 49632, 49636, 49640, 49648, 49649, 49651, 49660,
     49661, 49664, 49668, 49676, 49677, 49679, 49681, 49688, 49689, 49692, 49695, 49696, 49704,
     49705, 49707, 49709]"

definition ksx1001_BD :: "nat list" where
  "ksx1001_BD =
    [49711, 49713, 49714, 49716, 49736, 49744, 49745, 49748, 49752, 49760, 49765, 49772, 49773,
     49776, 49780, 49788, 49789, 49791, 49793, 49800, 49801, 49808, 49816, 49819, 49821, 49828,
     49829, 49832, 49836, 49837, 49844, 49845, 49847, 49849, 49884, 49885, 49888, 49891, 49892,
     49899, 49900, 49901, 49903, 49905, 49910, 49912, 49913, 49915, 49916, 49920, 49928, 49929,
     49932, 49933, 49939, 49940, 49941, 49944, 49948, 49956, 49957, 49960, 49961, 49989, 50024,
     50025, 50028, 50032, 50034, 50040, 50041, 50044, 50045, 50052, 50056, 50060, 50112, 50136,
     50137, 50140, 50143, 50144, 50146, 50152, 50153, 50157, 50164, 50165, 50168, 50184, 50192,
     50212, 50220, 50224]"

definition ksx1001_BE :: "nat list" where
  "ksx1001_BE =
    [50228, 50236, 50237, 50248, 50276, 50277, 50280, 50284, 50292, 50293, 50297, 50304, 50324,
     50332, 50360, 50364, 50409, 50416, 50417, 50420, 50424, 50426, 50431, 50432, 50433, 50444,
     50448, 50452, 50460, 50472, 50473, 50476, 50480, 50488, 50489, 50491, 50493, 50500, 50501,
     50504, 50505, 50506, 50508, 50509, 50510, 50515, 50516, 50517, 50519, 50520, 50521, 50525,
     50526, 50528, 50529, 50532, 50536, 50544, 50545, 50547, 50548, 50549, 50556, 50557, 50560,
     50564, 50567, 50572, 50573, 50575, 50577, 50581, 50583, 50584, 50588, 50592, 50601, 50612,
     50613, 50616, 50617, 50619, 50620, 50621, 50622, 50628, 50629, 50630, 50631, 50632, 50633,
     50634, 50636, 50638]"

definition ksx1001_BF :: "nat list" where
  "ksx1001_BF =
    [50640, 50641, 50644, 50648, 50656, 50657, 50659, 50661, 50668, 50669, 50670, 50672, 50676,
     50678, 50679, 50684, 50685, 50686, 50687, 50688, 50689, 50693, 50694, 50695, 50696, 50700,
     50704, 50712, 50713, 50715, 50716, 50724, 50725, 50728, 50732, 50733, 50734, 50736, 50739,
     50740, 50741, 50743, 50745, 50747, 50752, 50753, 50756, 50760, 50768, 50769, 50771, 50772,
     50773, 50780, 50781, 50784, 50796, 50799, 50801, 50808, 50809, 50812, 50816, 50824, 50825,
     50827, 50829, 50836, 50837, 50840, 50844, 50852, 50853, 50855, 50857, 50864, 50865, 50868,
     50872, 50873, 50874, 50880, 50881, 50883, 50885, 50892, 50893, 50896, 50900, 50908, 50909,
     50912, 50913, 50920]"

definition ksx1001_C0 :: "nat list" where
  "ksx1001_C0 =
    [50921, 50924, 50928, 50936, 50937, 50941, 50948, 50949, 50952, 50956, 50964, 50965, 50967,
     50969, 50976, 50977, 50980, 50984, 50992, 50993, 50995, 50997, 50999, 51004, 51005, 51008,
     51012, 51018, 51020, 51021, 51023, 51025, 51026, 51027, 51028, 51029, 51030, 51031, 51032,
     51036, 51040, 51048, 51051, 51060, 51061, 51064, 51068, 51069, 51070, 51075, 51076, 51077,
     51079, 51080, 51081, 51082, 51086, 51088, 51089, 51092, 51094, 51095, 51096, 51098, 51104,
     51105, 51107, 51108, 51109, 51110, 51116, 51117, 51120, 51124, 51132, 51133, 51135, 51136,
     51137, 51144, 51145, 51148, 51150, 51152, 51160, 51165, 51172, 51176, 51180, 51200, 51201,
     51204, 51208, 51210]"

definition ksx1001_C1 :: "nat list" where
  "ksx1001_C1 =
    [51216, 51217, 51219, 51221, 51222, 51228, 51229, 51232, 51236, 51244, 51245, 51247, 51249,
     51256, 51260, 51264, 51272, 51273, 51276, 51277, 51284, 51312, 51313, 51316, 51320, 51322,
     51328, 51329, 51331, 51333, 51334, 51335, 51339, 51340, 51341, 51348, 51357, 51359, 51361,
     51368, 51388, 51389, 51396, 51400, 51404, 51412, 51413, 51415, 51417, 51424, 51425, 51428,
     51445, 51452, 51453, 51456, 51460, 51461, 51462, 51468, 51469, 51471, 51473, 51480, 51500,
     51508, 51536, 51537, 51540, 51544, 51552, 51553, 51555, 51564, 51568, 51572, 51580, 51592,
     51593, 51596, 51600, 51608, 51609, 51611, 51613, 51648, 51649, 51652, 51655, 51656, 51658,
     51664, 51665, 51667]"

definition ksx1001_C2 :: "nat list" where
  "ksx1001_C2 =
    [51669, 51670, 51673, 51674, 51676, 51677, 51680, 51682, 51684, 51687, 51692, 51693, 51695,
     51696, 51697, 51704, 51705, 51708, 51712, 51720, 51721, 51723, 51724, 51725, 51732, 51736,
     51753, 51788, 51789, 51792, 51796, 51804, 51805, 51807, 51808, 51809, 51816, 51837, 51844,
     51864, 51900, 51901, 51904, 51908, 51916, 51917, 51919, 51921, 51923, 51928, 51929, 51936,
     51948, 51956, 51976, 51984, 51988, 51992, 52000, 52001, 52033, 52040, 52041, 52044, 52048,
     52056, 52057, 52061, 52068, 52088, 52089, 52124, 52152, 52180, 52196, 52199, 52201, 52236,
     52237, 52240, 52244, 52252, 52253, 52257, 52258, 52263, 52264, 52265, 52268, 52270, 52272,
     52280, 52281, 52283]"

definition ksx1001_C3 :: "nat list" where
  "ksx1001_C3 =
    [52284, 52285, 52286, 52292, 52293, 52296, 52300, 52308, 52309, 52311, 52312, 52313, 52320,
     52324, 52326, 52328, 52336, 52341, 52376, 52377, 52380, 52384, 52392, 52393, 52395, 52396,
     52397, 52404, 52405, 52408, 52412, 52420, 52421, 52423, 52425, 52432, 52436, 52452, 52460,
     52464, 52481, 52488, 52489, 52492, 52496, 52504, 52505, 52507, 52509, 52516, 52520, 52524,
     52537, 52572, 52576, 52580, 52588, 52589, 52591, 52593, 52600, 52616, 52628, 52629, 52632,
     52636, 52644, 52645, 52647, 52649, 52656, 52676, 52684, 52688, 52712, 52716, 52720, 52728,
     52729, 52731, 52733, 52740, 52744, 52748, 52756, 52761, 52768, 52769, 52772, 52776, 52784,
     52785, 52787, 52789]"

definition ksx1001_C4 :: "nat list" where
  "ksx1001_C4 =
    [52824, 52825, 52828, 52831, 52832, 52833, 52840, 52841, 52843, 52845, 52852, 52853, 52856,
     52860, 52868, 52869, 52871, 52873, 52880, 52881, 52884, 52888, 52896, 52897, 52899, 52900,
     52901, 52908, 52909, 52929, 52964, 52965, 52968, 52971, 52972, 52980, 52981, 52983, 52984,
     52985, 52992, 52993, 52996, 53000, 53008, 53009, 53011, 53013, 53020, 53024, 53028, 53036,
     53037, 53039, 53040, 53041, 53048, 53076, 53077, 53080, 53084, 53092, 53093, 53095, 53097,
     53104, 53105, 53108, 53112, 53120, 53125, 53132, 53153, 53160, 53168, 53188, 53216, 53217,
     53220, 53224, 53232, 53233, 53235, 53237, 53244, 53248, 53252, 53265, 53272, 53293, 53300,
     53301, 53304, 53308]"

definition ksx1001_C5 :: "nat list" where
  "ksx1001_C5 =
    [53316, 53317, 53319, 53321, 53328, 53332, 53336, 53344, 53356, 53357, 53360, 53364, 53372,
     53373, 53377, 53412, 53413, 53416, 53420, 53428, 53429, 53431, 53433, 53440, 53441, 53444,
     53448, 53449, 53456, 53457, 53459, 53460, 53461, 53468, 53469, 53472, 53476, 53484, 53485,
     53487, 53488, 53489, 53496, 53517, 53552, 53553, 53556, 53560, 53562, 53568, 53569, 53571,
     53572, 53573, 53580, 53581, 53584, 53588, 53596, 53597, 53599, 53601, 53608, 53612, 53628,
     53636, 53640, 53664, 53665, 53668, 53672, 53680, 53681, 53683, 53685, 53690, 53692, 53696,
     53720, 53748, 53752, 53767, 53769, 53776, 53804, 53805, 53808, 53812, 53820, 53821, 53823,
     53825, 53832, 53852]"

definition ksx1001_C6 :: "nat list" where
  "ksx1001_C6 =
    [53860, 53888, 53889, 53892, 53896, 53904, 53905, 53909, 53916, 53920, 53924, 53932, 53937,
     53944, 53945, 53948, 53951, 53952, 53954, 53960, 53961, 53963, 53972, 53976, 53980, 53988,
     53989, 54000, 54001, 54004, 54008, 54016, 54017, 54019, 54021, 54028, 54029, 54030, 54032,
     54036, 54038, 54044, 54045, 54047, 54048, 54049, 54053, 54056, 54057, 54060, 54064, 54072,
     54073, 54075, 54076, 54077, 54084, 54085, 54140, 54141, 54144, 54148, 54156, 54157, 54159,
     54160, 54161, 54168, 54169, 54172, 54176, 54184, 54185, 54187, 54189, 54196, 54200, 54204,
     54212, 54213, 54216, 54217, 54224, 54232, 54241, 54243, 54252, 54253, 54256, 54260, 54268,
     54269, 54271, 54273]"

definition ksx1001_C7 :: "nat list" where
  "ksx1001_C7 =
    [54280, 54301, 54336, 54340, 54364, 54368, 54372, 54381, 54383, 54392, 54393, 54396, 54399,
     54400, 54402, 54408, 54409, 54411, 54413, 54420, 54441, 54476, 54480, 54484, 54492, 54495,
     54504, 54508, 54512, 54520, 54523, 54525, 54532, 54536, 54540, 54548, 54549, 54551, 54588,
     54589, 54592, 54596, 54604, 54605, 54607, 54609, 54616, 54617, 54620, 54624, 54629, 54632,
     54633, 54635, 54637, 54644, 54645, 54648, 54652, 54660, 54661, 54663, 54664, 54665, 54672,
     54693, 54728, 54729, 54732, 54736, 54738, 54744, 54745, 54747, 54749, 54756, 54757, 54760,
     54764, 54772, 54773, 54775, 54777, 54784, 54785, 54788, 54792, 54800, 54801, 54803, 54804,
     54805, 54812, 54816]"

definition ksx1001_C8 :: "nat list" where
  "ksx1001_C8 =
    [54820, 54829, 54840, 54841, 54844, 54848, 54853, 54856, 54857, 54859, 54861, 54865, 54868,
     54869, 54872, 54876, 54887, 54889, 54896, 54897, 54900, 54915, 54917, 54924, 54925, 54928,
     54932, 54941, 54943, 54945, 54952, 54956, 54960, 54969, 54971, 54980, 54981, 54984, 54988,
     54993, 54996, 54999, 55001, 55008, 55012, 55016, 55024, 55029, 55036, 55037, 55040, 55044,
     55057, 55064, 55065, 55068, 55072, 55080, 55081, 55083, 55085, 55092, 55093, 55096, 55100,
     55108, 55111, 55113, 55120, 55121, 55124, 55126, 55127, 55128, 55129, 55136, 55137, 55139,
     55141, 55145, 55148, 55152, 55156, 55164, 55165, 55169, 55176, 55177, 55180, 55184, 55192,
     55193, 55195, 55197]"

definition ksx1001_CA :: "nat list" where
  "ksx1001_CA =
    [20285, 20339, 20551, 20729, 21152, 21487, 21621, 21733, 22025, 23233, 23478, 26247, 26550,
     26551, 26607, 27468, 29634, 30146, 31292, 33499, 33540, 34903, 34952, 35382, 36040, 36303,
     36603, 36838, 39381, 21051, 21364, 21508, 24682, 24932, 27580, 29647, 33050, 35258, 35282,
     38307, 20355, 21002, 22718, 22904, 23014, 24178, 24185, 25031, 25536, 26438, 26604, 26751,
     28567, 30286, 30475, 30965, 31240, 31487, 31777, 32925, 33390, 33393, 35563, 38291, 20075,
     21917, 26359, 28212, 30883, 31469, 33883, 35088, 34638, 38824, 21208, 22350, 22570, 23884,
     24863, 25022, 25121, 25954, 26577, 27204, 28187, 29976, 30131, 30435, 30640, 32058, 37039,
     37969, 37970, 40853]"

definition ksx1001_CB :: "nat list" where
  "ksx1001_CB =
    [21283, 23724, 30002, 32987, 37440, 38296, 21083, 22536, 23004, 23713, 23831, 24247, 24378,
     24394, 24951, 27743, 30074, 30086, 31968, 32115, 32177, 32652, 33108, 33313, 34193, 35137,
     35611, 37628, 38477, 40007, 20171, 20215, 20491, 20977, 22607, 24887, 24894, 24936, 25913,
     27114, 28433, 30117, 30342, 30422, 31623, 33445, 33995, 63744, 37799, 38283, 21888, 23458,
     22353, 63745, 31923, 32697, 37301, 20520, 21435, 23621, 24040, 25298, 25454, 25818, 25831,
     28192, 28844, 31067, 36317, 36382, 63746, 36989, 37445, 37624, 20094, 20214, 20581, 24062,
     24314, 24838, 26967, 33137, 34388, 36423, 37749, 39467, 20062, 20625, 26480, 26688, 20745,
     21133, 21138, 27298]"

definition ksx1001_CC :: "nat list" where
  "ksx1001_CC =
    [30652, 37392, 40660, 21163, 24623, 36850, 20552, 25001, 25581, 25802, 26684, 27268, 28608,
     33160, 35233, 38548, 22533, 29309, 29356, 29956, 32121, 32365, 32937, 35211, 35700, 36963,
     40273, 25225, 27770, 28500, 32080, 32570, 35363, 20860, 24906, 31645, 35609, 37463, 37772,
     20140, 20435, 20510, 20670, 20742, 21185, 21197, 21375, 22384, 22659, 24218, 24465, 24950,
     25004, 25806, 25964, 26223, 26299, 26356, 26775, 28039, 28805, 28913, 29855, 29861, 29898,
     30169, 30828, 30956, 31455, 31478, 32069, 32147, 32789, 32831, 33051, 33686, 35686, 36629,
     36885, 37857, 38915, 38968, 39514, 39912, 20418, 21843, 22586, 22865, 23395, 23622, 24760,
     25106, 26690, 26800]"

definition ksx1001_CD :: "nat list" where
  "ksx1001_CD =
    [26856, 28330, 30028, 30328, 30926, 31293, 31995, 32363, 32380, 35336, 35489, 35903, 38542,
     40388, 21476, 21481, 21578, 21617, 22266, 22993, 23396, 23611, 24235, 25335, 25911, 25925,
     25970, 26272, 26543, 27073, 27837, 30204, 30352, 30590, 31295, 32660, 32771, 32929, 33167,
     33510, 33533, 33776, 34241, 34865, 34996, 35493, 63747, 36764, 37678, 38599, 39015, 39640,
     40723, 21741, 26011, 26354, 26767, 31296, 35895, 40288, 22256, 22372, 23825, 26118, 26801,
     26829, 28414, 29736, 34974, 39908, 27752, 63748, 39592, 20379, 20844, 20849, 21151, 23380,
     24037, 24656, 24685, 25329, 25511, 25915, 29657, 31354, 34467, 36002, 38799, 20018, 23521,
     25096, 26524, 29916]"

definition ksx1001_CE :: "nat list" where
  "ksx1001_CE =
    [31185, 33747, 35463, 35506, 36328, 36942, 37707, 38982, 24275, 27112, 34303, 37101, 63749,
     20896, 23448, 23532, 24931, 26874, 27454, 28748, 29743, 29912, 31649, 32592, 33733, 35264,
     36011, 38364, 39208, 21038, 24669, 25324, 36866, 20362, 20809, 21281, 22745, 24291, 26336,
     27960, 28826, 29378, 29654, 31568, 33009, 37979, 21350, 25499, 32619, 20054, 20608, 22602,
     22750, 24618, 24871, 25296, 27088, 39745, 23439, 32024, 32945, 36703, 20132, 20689, 21676,
     21932, 23308, 23968, 24039, 25898, 25934, 26657, 27211, 29409, 30350, 30703, 32094, 32761,
     33184, 34126, 34527, 36611, 36686, 37066, 39171, 39509, 39851, 19992, 20037, 20061, 20167,
     20465, 20855, 21246]"

definition ksx1001_CF :: "nat list" where
  "ksx1001_CF =
    [21312, 21475, 21477, 21646, 22036, 22389, 22434, 23495, 23943, 24272, 25084, 25304, 25937,
     26552, 26601, 27083, 27472, 27590, 27628, 27714, 28317, 28792, 29399, 29590, 29699, 30655,
     30697, 31350, 32127, 32777, 33276, 33285, 33290, 33503, 34914, 35635, 36092, 36544, 36881,
     37041, 37476, 37558, 39378, 39493, 40169, 40407, 40860, 22283, 23616, 33738, 38816, 38827,
     40628, 21531, 31384, 32676, 35033, 36557, 37089, 22528, 23624, 25496, 31391, 23470, 24339,
     31353, 31406, 33422, 36524, 20518, 21048, 21240, 21367, 22280, 25331, 25458, 27402, 28099,
     30519, 21413, 29527, 34152, 36470, 38357, 26426, 27331, 28528, 35437, 36556, 39243, 63750,
     26231, 27512, 36020]"

definition ksx1001_D0 :: "nat list" where
  "ksx1001_D0 =
    [39740, 63751, 21483, 22317, 22862, 25542, 27131, 29674, 30789, 31418, 31429, 31998, 33909,
     35215, 36211, 36917, 38312, 21243, 22343, 30023, 31584, 33740, 37406, 63752, 27224, 20811,
     21067, 21127, 25119, 26840, 26997, 38553, 20677, 21156, 21220, 25027, 26020, 26681, 27135,
     29822, 31563, 33465, 33771, 35250, 35641, 36817, 39241, 63753, 20170, 22935, 25810, 26129,
     27278, 29748, 31105, 31165, 33449, 34942, 34943, 35167, 63754, 37670, 20235, 21450, 24613,
     25201, 27762, 32026, 32102, 20120, 20834, 30684, 32943, 20225, 20238, 20854, 20864, 21980,
     22120, 22331, 22522, 22524, 22804, 22855, 22931, 23492, 23696, 23822, 24049, 24190, 24524,
     25216, 26071, 26083]"

definition ksx1001_D1 :: "nat list" where
  "ksx1001_D1 =
    [26398, 26399, 26462, 26827, 26820, 27231, 27450, 27683, 27773, 27778, 28103, 29592, 29734,
     29738, 29826, 29859, 30072, 30079, 30849, 30959, 31041, 31047, 31048, 31098, 31637, 32000,
     32186, 32648, 32774, 32813, 32908, 35352, 35663, 35912, 36215, 37665, 37668, 39138, 39249,
     39438, 39439, 39525, 40594, 32202, 20342, 21513, 25326, 26708, 37329, 21931, 20794, 63755,
     63756, 23068, 25062, 63757, 25295, 25343, 63758, 63759, 63760, 63761, 63762, 63763, 37027,
     63764, 63765, 63766, 63767, 63768, 35582, 63769, 63770, 63771, 63772, 26262, 63773, 29014,
     63774, 63775, 38627, 63776, 25423, 25466, 21335, 63777, 26511, 26976, 28275, 63778, 30007,
     63779, 63780, 63781]"

definition ksx1001_D2 :: "nat list" where
  "ksx1001_D2 =
    [32013, 63782, 63783, 34930, 22218, 23064, 63784, 63785, 63786, 63787, 63788, 20035, 63789,
     20839, 22856, 26608, 32784, 63790, 22899, 24180, 25754, 31178, 24565, 24684, 25288, 25467,
     23527, 23511, 21162, 63791, 22900, 24361, 24594, 63792, 63793, 63794, 29785, 63795, 63796,
     63797, 63798, 63799, 63800, 39377, 63801, 63802, 63803, 63804, 63805, 63806, 63807, 63808,
     63809, 63810, 63811, 28611, 63812, 63813, 33215, 36786, 24817, 63814, 63815, 33126, 63816,
     63817, 23615, 63818, 63819, 63820, 63821, 63822, 63823, 63824, 63825, 23273, 35365, 26491,
     32016, 63826, 63827, 63828, 63829, 63830, 63831, 33021, 63832, 63833, 23612, 27877, 21311,
     28346, 22810, 33590]"

definition ksx1001_D3 :: "nat list" where
  "ksx1001_D3 =
    [20025, 20150, 20294, 21934, 22296, 22727, 24406, 26039, 26086, 27264, 27573, 28237, 30701,
     31471, 31774, 32222, 34507, 34962, 37170, 37723, 25787, 28606, 29562, 30136, 36948, 21846,
     22349, 25018, 25812, 26311, 28129, 28251, 28525, 28601, 30192, 32835, 33213, 34113, 35203,
     35527, 35674, 37663, 27795, 30035, 31572, 36367, 36957, 21776, 22530, 22616, 24162, 25095,
     25758, 26848, 30070, 31958, 34739, 40680, 20195, 22408, 22382, 22823, 23565, 23729, 24118,
     24453, 25140, 25825, 29619, 33274, 34955, 36024, 38538, 40667, 23429, 24503, 24755, 20498,
     20992, 21040, 22294, 22581, 22615, 23566, 23648, 23798, 23947, 24230, 24466, 24764, 25361,
     25481, 25623, 26691]"

definition ksx1001_D4 :: "nat list" where
  "ksx1001_D4 =
    [26873, 27330, 28120, 28193, 28372, 28644, 29182, 30428, 30585, 31153, 31291, 33796, 35241,
     36077, 36339, 36424, 36867, 36884, 36947, 37117, 37709, 38518, 38876, 27602, 28678, 29272,
     29346, 29544, 30563, 31167, 31716, 32411, 35712, 22697, 24775, 25958, 26109, 26302, 27788,
     28958, 29129, 35930, 38931, 20077, 31361, 20189, 20908, 20941, 21205, 21516, 24999, 26481,
     26704, 26847, 27934, 28540, 30140, 30643, 31461, 33012, 33891, 37509, 20828, 26007, 26460,
     26515, 30168, 31431, 33651, 63834, 35910, 36887, 38957, 23663, 33216, 33434, 36929, 36975,
     37389, 24471, 23965, 27225, 29128, 30331, 31561, 34276, 35588, 37159, 39472, 21895, 25078,
     63835, 30313, 32645]"

definition ksx1001_D5 :: "nat list" where
  "ksx1001_D5 =
    [34367, 34746, 35064, 37007, 63836, 27931, 28889, 29662, 32097, 33853, 63837, 37226, 39409,
     63838, 20098, 21365, 27396, 27410, 28734, 29211, 34349, 40478, 21068, 36771, 23888, 25829,
     25900, 27414, 28651, 31811, 32412, 34253, 35172, 35261, 25289, 33240, 34847, 24266, 26391,
     28010, 29436, 29701, 29807, 34690, 37086, 20358, 23821, 24480, 33802, 20919, 25504, 30053,
     20142, 20486, 20841, 20937, 26753, 27153, 31918, 31921, 31975, 33391, 35538, 36635, 37327,
     20406, 20791, 21237, 21570, 24300, 24942, 25150, 26053, 27354, 28670, 31018, 34268, 34851,
     38317, 39522, 39530, 40599, 40654, 21147, 26310, 27511, 28701, 31019, 36706, 38722, 24976,
     25088, 25891, 28451]"

definition ksx1001_D6 :: "nat list" where
  "ksx1001_D6 =
    [29001, 29833, 32244, 32879, 34030, 36646, 36899, 37706, 20925, 21015, 21155, 27916, 28872,
     35010, 24265, 25986, 27566, 28610, 31806, 29557, 20196, 20278, 22265, 63839, 23738, 23994,
     24604, 29618, 31533, 32666, 32718, 32838, 36894, 37428, 38646, 38728, 38936, 40801, 20363,
     28583, 31150, 37300, 38583, 21214, 63840, 25736, 25796, 27347, 28510, 28696, 29200, 30439,
     32769, 34310, 34396, 36335, 36613, 38706, 39791, 40442, 40565, 30860, 31103, 32160, 33737,
     37636, 40575, 40595, 35542, 22751, 24324, 26407, 28711, 29903, 31840, 32894, 20769, 28712,
     29282, 30922, 36034, 36058, 36084, 38647, 20102, 20698, 23534, 24278, 26009, 29134, 30274,
     30637, 32842, 34044]"

definition ksx1001_D7 :: "nat list" where
  "ksx1001_D7 =
    [36988, 39719, 40845, 22744, 23105, 23650, 27155, 28122, 28431, 30267, 32047, 32311, 34078,
     35128, 37860, 38475, 21129, 26066, 26611, 27060, 27969, 28316, 28687, 29705, 29792, 30041,
     30244, 30827, 35628, 39006, 20845, 25134, 38520, 20374, 20523, 23833, 28138, 32184, 36650,
     24459, 24900, 26647, 63841, 38534, 21202, 32907, 20956, 20940, 26974, 31260, 32190, 33777,
     38517, 20442, 21033, 21400, 21519, 21774, 23653, 24743, 26446, 26792, 28012, 29313, 29432,
     29702, 29827, 63842, 30178, 31852, 32633, 32696, 33673, 35023, 35041, 37324, 37328, 38626,
     39881, 21533, 28542, 29136, 29848, 34298, 36522, 38563, 40023, 40607, 26519, 28107, 29747,
     33256, 38678, 30764]"

definition ksx1001_D8 :: "nat list" where
  "ksx1001_D8 =
    [31435, 31520, 31890, 25705, 29802, 30194, 30908, 30952, 39340, 39764, 40635, 23518, 24149,
     28448, 33180, 33707, 37000, 19975, 21325, 23081, 24018, 24398, 24930, 25405, 26217, 26364,
     28415, 28459, 28771, 30622, 33836, 34067, 34875, 36627, 39237, 39995, 21788, 25273, 26411,
     27819, 33545, 35178, 38778, 20129, 22916, 24536, 24537, 26395, 32178, 32596, 33426, 33579,
     33725, 36638, 37017, 22475, 22969, 23186, 23504, 26151, 26522, 26757, 27599, 29028, 32629,
     36023, 36067, 36993, 39749, 33032, 35978, 38476, 39488, 40613, 23391, 27667, 29467, 30450,
     30431, 33804, 20906, 35219, 20813, 20885, 21193, 26825, 27796, 30468, 30496, 32191, 32236,
     38754, 40629, 28357]"

definition ksx1001_D9 :: "nat list" where
  "ksx1001_D9 =
    [34065, 20901, 21517, 21629, 26126, 26269, 26919, 28319, 30399, 30609, 33559, 33986, 34719,
     37225, 37528, 40180, 34946, 20398, 20882, 21215, 22982, 24125, 24917, 25720, 25721, 26286,
     26576, 27169, 27597, 27611, 29279, 29281, 29761, 30520, 30683, 32791, 33468, 33541, 35584,
     35624, 35980, 26408, 27792, 29287, 30446, 30566, 31302, 40361, 27519, 27794, 22818, 26406,
     33945, 21359, 22675, 22937, 24287, 25551, 26164, 26483, 28218, 29483, 31447, 33495, 37672,
     21209, 24043, 25006, 25035, 25098, 25287, 25771, 26080, 26969, 27494, 27595, 28961, 29687,
     30045, 32326, 33310, 33538, 34154, 35491, 36031, 38695, 40289, 22696, 40664, 20497, 21006,
     21563, 21839, 25991]"

definition ksx1001_DA :: "nat list" where
  "ksx1001_DA =
    [27766, 32010, 32011, 32862, 34442, 38272, 38639, 21247, 27797, 29289, 21619, 23194, 23614,
     23883, 24396, 24494, 26410, 26806, 26979, 28220, 28228, 30473, 31859, 32654, 34183, 35598,
     36855, 38753, 40692, 23735, 24758, 24845, 25003, 25935, 26107, 26108, 27665, 27887, 29599,
     29641, 32225, 38292, 23494, 34588, 35600, 21085, 21338, 25293, 25615, 25778, 26420, 27192,
     27850, 29632, 29854, 31636, 31893, 32283, 33162, 33334, 34180, 36843, 38649, 39361, 20276,
     21322, 21453, 21467, 25292, 25644, 25856, 26001, 27075, 27886, 28504, 29677, 30036, 30242,
     30436, 30460, 30928, 30971, 31020, 32070, 33324, 34784, 36820, 38930, 39151, 21187, 25300,
     25765, 28196, 28497]"

definition ksx1001_DB :: "nat list" where
  "ksx1001_DB =
    [30332, 36299, 37297, 37474, 39662, 39747, 20515, 20621, 22346, 22952, 23592, 24135, 24439,
     25151, 25918, 26041, 26049, 26121, 26507, 27036, 28354, 30917, 32033, 32938, 33152, 33323,
     33459, 33953, 34444, 35370, 35607, 37030, 38450, 40848, 20493, 20467, 63843, 22521, 24472,
     25308, 25490, 26479, 28227, 28953, 30403, 32972, 32986, 35060, 35061, 35097, 36064, 36649,
     37197, 38506, 20271, 20336, 24091, 26575, 26658, 30333, 30334, 39748, 24161, 27146, 29033,
     29140, 30058, 63844, 32321, 34115, 34281, 39132, 20240, 31567, 32624, 38309, 20961, 24070,
     26805, 27710, 27726, 27867, 29359, 31684, 33539, 27861, 29754, 20731, 21128, 22721, 25816,
     27287, 29863, 30294]"

definition ksx1001_DC :: "nat list" where
  "ksx1001_DC =
    [30887, 34327, 38370, 38713, 63845, 21342, 24321, 35722, 36776, 36783, 37002, 21029, 30629,
     40009, 40712, 19993, 20482, 20853, 23643, 24183, 26142, 26170, 26564, 26821, 28851, 29953,
     30149, 31177, 31453, 36647, 39200, 39432, 20445, 22561, 22577, 23542, 26222, 27493, 27921,
     28282, 28541, 29668, 29995, 33769, 35036, 35091, 35676, 36628, 20239, 20693, 21264, 21340,
     23443, 24489, 26381, 31119, 33145, 33583, 34068, 35079, 35206, 36665, 36667, 39333, 39954,
     26412, 20086, 20472, 22857, 23553, 23791, 23792, 25447, 26834, 28925, 29090, 29739, 32299,
     34028, 34562, 36898, 37586, 40179, 19981, 20184, 20463, 20613, 21078, 21103, 21542, 21648,
     22496, 22827, 23142]"

definition ksx1001_DD :: "nat list" where
  "ksx1001_DD =
    [23386, 23413, 23500, 24220, 63846, 25206, 25975, 26023, 28014, 28325, 29238, 31526, 31807,
     32566, 33104, 33105, 33178, 33344, 33433, 33705, 35331, 36000, 36070, 36091, 36212, 36282,
     37096, 37340, 38428, 38468, 39385, 40167, 21271, 20998, 21545, 22132, 22707, 22868, 22894,
     24575, 24996, 25198, 26128, 27774, 28954, 30406, 31881, 31966, 32027, 33452, 36033, 38640,
     63847, 20315, 24343, 24447, 25282, 23849, 26379, 26842, 30844, 32323, 40300, 19989, 20633,
     21269, 21290, 21329, 22915, 23138, 24199, 24754, 24970, 25161, 25209, 26000, 26503, 27047,
     27604, 27606, 27607, 27608, 27832, 63848, 29749, 30202, 30738, 30865, 31189, 31192, 31875,
     32203, 32737, 32933]"

definition ksx1001_DE :: "nat list" where
  "ksx1001_DE =
    [33086, 33218, 33778, 34586, 35048, 35513, 35692, 36027, 37145, 38750, 39131, 40763, 22188,
     23338, 24428, 25996, 27315, 27567, 27996, 28657, 28693, 29277, 29613, 36007, 36051, 38971,
     24977, 27703, 32856, 39425, 20045, 20107, 20123, 20181, 20282, 20284, 20351, 20447, 20735,
     21490, 21496, 21766, 21987, 22235, 22763, 22882, 23057, 23531, 23546, 23556, 24051, 24107,
     24473, 24605, 25448, 26012, 26031, 26614, 26619, 26797, 27515, 27801, 27863, 28195, 28681,
     29509, 30722, 31038, 31040, 31072, 31169, 31721, 32023, 32114, 32902, 33293, 33678, 34001,
     34503, 35039, 35408, 35422, 35613, 36060, 36198, 36781, 37034, 39164, 39391, 40605, 21066,
     63849, 26388, 63850]"

definition ksx1001_DF :: "nat list" where
  "ksx1001_DF =
    [20632, 21034, 23665, 25955, 27733, 29642, 29987, 30109, 31639, 33948, 37240, 38704, 20087,
     25746, 27578, 29022, 34217, 19977, 63851, 26441, 26862, 28183, 33439, 34072, 34923, 25591,
     28545, 37394, 39087, 19978, 20663, 20687, 20767, 21830, 21930, 22039, 23360, 23577, 23776,
     24120, 24202, 24224, 24258, 24819, 26705, 27233, 28248, 29245, 29248, 29376, 30456, 31077,
     31665, 32724, 35059, 35316, 35443, 35937, 36062, 38684, 22622, 29885, 36093, 21959, 63852,
     31329, 32034, 33394, 29298, 29983, 29989, 63853, 31513, 22661, 22779, 23996, 24207, 24246,
     24464, 24661, 25234, 25471, 25933, 26257, 26329, 26360, 26646, 26866, 29312, 29790, 31598,
     32110, 32214, 32626]"

definition ksx1001_E0 :: "nat list" where
  "ksx1001_E0 =
    [32997, 33298, 34223, 35199, 35475, 36893, 37604, 40653, 40736, 22805, 22893, 24109, 24796,
     26132, 26227, 26512, 27728, 28101, 28511, 30707, 30889, 33990, 37323, 37675, 20185, 20682,
     20808, 21892, 23307, 23459, 25159, 25982, 26059, 28210, 29053, 29697, 29764, 29831, 29887,
     30316, 31146, 32218, 32341, 32680, 33146, 33203, 33337, 34330, 34796, 35445, 36323, 36984,
     37521, 37925, 39245, 39854, 21352, 23633, 26964, 27844, 27945, 28203, 33292, 34203, 35131,
     35373, 35498, 38634, 40807, 21089, 26297, 27570, 32406, 34814, 36109, 38275, 38493, 25885,
     28041, 29166, 63854, 22478, 22995, 23468, 24615, 24826, 25104, 26143, 26207, 29481, 29689,
     30427, 30465, 31596]"

definition ksx1001_E1 :: "nat list" where
  "ksx1001_E1 =
    [32854, 32882, 33125, 35488, 37266, 19990, 21218, 27506, 27927, 31237, 31545, 32048, 63855,
     36016, 21484, 22063, 22609, 23477, 23567, 23569, 24034, 25152, 25475, 25620, 26157, 26803,
     27836, 28040, 28335, 28703, 28836, 29138, 29990, 30095, 30094, 30233, 31505, 31712, 31787,
     32032, 32057, 34092, 34157, 34311, 35380, 36877, 36961, 37045, 37559, 38902, 39479, 20439,
     23660, 26463, 28049, 31903, 32396, 35606, 36118, 36895, 23403, 24061, 25613, 33984, 36956,
     39137, 29575, 23435, 24730, 26494, 28126, 35359, 35494, 36865, 38924, 21047, 63856, 28753,
     30862, 37782, 34928, 37335, 20462, 21463, 22013, 22234, 22402, 22781, 23234, 23432, 23723,
     23744, 24101, 24833]"

definition ksx1001_E2 :: "nat list" where
  "ksx1001_E2 =
    [25101, 25163, 25480, 25628, 25910, 25976, 27193, 27530, 27700, 27929, 28465, 29159, 29417,
     29560, 29703, 29874, 30246, 30561, 31168, 31319, 31466, 31929, 32143, 32172, 32353, 32670,
     33065, 33585, 33936, 34010, 34282, 34966, 35504, 35728, 36664, 36930, 36995, 37228, 37526,
     37561, 38539, 38567, 38568, 38614, 38656, 38920, 39318, 39635, 39706, 21460, 22654, 22809,
     23408, 23487, 28113, 28506, 29087, 29729, 29881, 32901, 33789, 24033, 24455, 24490, 24642,
     26092, 26642, 26991, 27219, 27529, 27957, 28147, 29667, 30462, 30636, 31565, 32020, 33059,
     33308, 33600, 34036, 34147, 35426, 35524, 37255, 37662, 38918, 39348, 25100, 34899, 36848,
     37477, 23815, 23847]"

definition ksx1001_E3 :: "nat list" where
  "ksx1001_E3 =
    [23913, 29791, 33181, 34664, 28629, 25342, 32722, 35126, 35186, 19998, 20056, 20711, 21213,
     21319, 25215, 26119, 32361, 34821, 38494, 20365, 21273, 22070, 22987, 23204, 23608, 23630,
     23629, 24066, 24337, 24643, 26045, 26159, 26178, 26558, 26612, 29468, 30690, 31034, 32709,
     33940, 33997, 35222, 35430, 35433, 35553, 35925, 35962, 22516, 23508, 24335, 24687, 25325,
     26893, 27542, 28252, 29060, 31698, 34645, 35672, 36606, 39135, 39166, 20280, 20353, 20449,
     21627, 23072, 23480, 24892, 26032, 26216, 29180, 30003, 31070, 32051, 33102, 33251, 33688,
     34218, 34254, 34563, 35338, 36523, 36763, 63857, 36805, 22833, 23460, 23526, 24713, 23529,
     23563, 24515, 27777]"

definition ksx1001_E4 :: "nat list" where
  "ksx1001_E4 =
    [63858, 28145, 28683, 29978, 33455, 35574, 20160, 21313, 63859, 38617, 27663, 20126, 20420,
     20818, 21854, 23077, 23784, 25105, 29273, 33469, 33706, 34558, 34905, 35357, 38463, 38597,
     39187, 40201, 40285, 22538, 23731, 23997, 24132, 24801, 24853, 25569, 27138, 28197, 37122,
     37716, 38990, 39952, 40823, 23433, 23736, 25353, 26191, 26696, 30524, 38593, 38797, 38996,
     39839, 26017, 35585, 36555, 38332, 21813, 23721, 24022, 24245, 26263, 30284, 33780, 38343,
     22739, 25276, 29390, 40232, 20208, 22830, 24591, 26171, 27523, 31207, 40230, 21395, 21696,
     22467, 23830, 24859, 26326, 28079, 30861, 33406, 38552, 38724, 21380, 25212, 25494, 28082,
     32266, 33099, 38989]"

definition ksx1001_E5 :: "nat list" where
  "ksx1001_E5 =
    [27387, 32588, 40367, 40474, 20063, 20539, 20918, 22812, 24825, 25590, 26928, 29242, 32822,
     63860, 37326, 24369, 63861, 63862, 32004, 33509, 33903, 33979, 34277, 36493, 63863, 20335,
     63864, 63865, 22756, 23363, 24665, 25562, 25880, 25965, 26264, 63866, 26954, 27171, 27915,
     28673, 29036, 30162, 30221, 31155, 31344, 63867, 32650, 63868, 35140, 63869, 35731, 37312,
     38525, 63870, 39178, 22276, 24481, 26044, 28417, 30208, 31142, 35486, 39341, 39770, 40812,
     20740, 25014, 25233, 27277, 33222, 20547, 22576, 24422, 28937, 35328, 35578, 23420, 34326,
     20474, 20796, 22196, 22852, 25513, 28153, 23978, 26989, 20870, 20104, 20313, 63871, 63872,
     63873, 22914, 63874]"

definition ksx1001_E6 :: "nat list" where
  "ksx1001_E6 =
    [63875, 27487, 27741, 63876, 29877, 30998, 63877, 33287, 33349, 33593, 36671, 36701, 63878,
     39192, 63879, 63880, 63881, 20134, 63882, 22495, 24441, 26131, 63883, 63884, 30123, 32377,
     35695, 63885, 36870, 39515, 22181, 22567, 23032, 23071, 23476, 63886, 24310, 63887, 63888,
     25424, 25403, 63889, 26941, 27783, 27839, 28046, 28051, 28149, 28436, 63890, 28895, 28982,
     29017, 63891, 29123, 29141, 63892, 30799, 30831, 63893, 31605, 32227, 63894, 32303, 63895,
     34893, 36575, 63896, 63897, 63898, 37467, 63899, 40182, 63900, 63901, 63902, 24709, 28037,
     63903, 29105, 63904, 63905, 38321, 21421, 63906, 63907, 63908, 26579, 63909, 28814, 28976,
     29744, 33398, 33490]"

definition ksx1001_E7 :: "nat list" where
  "ksx1001_E7 =
    [63910, 38331, 39653, 40573, 26308, 63911, 29121, 33865, 63912, 63913, 22603, 63914, 63915,
     23992, 24433, 63916, 26144, 26254, 27001, 27054, 27704, 27891, 28214, 28481, 28634, 28699,
     28719, 29008, 29151, 29552, 63917, 29787, 63918, 29908, 30408, 31310, 32403, 63919, 63920,
     33521, 35424, 36814, 63921, 37704, 63922, 38681, 63923, 63924, 20034, 20522, 63925, 21000,
     21473, 26355, 27757, 28618, 29450, 30591, 31330, 33454, 34269, 34306, 63926, 35028, 35427,
     35709, 35947, 63927, 37555, 63928, 38675, 38928, 20116, 20237, 20425, 20658, 21320, 21566,
     21555, 21978, 22626, 22714, 22887, 23067, 23524, 24735, 63929, 25034, 25942, 26111, 26212,
     26791, 27738, 28595]"

definition ksx1001_E8 :: "nat list" where
  "ksx1001_E8 =
    [28879, 29100, 29522, 31613, 34568, 35492, 39986, 40711, 23627, 27779, 29508, 29577, 37434,
     28331, 29797, 30239, 31337, 32277, 34314, 20800, 22725, 25793, 29934, 29973, 30320, 32705,
     37013, 38605, 39252, 28198, 29926, 31401, 31402, 33253, 34521, 34680, 35355, 23113, 23436,
     23451, 26785, 26880, 28003, 29609, 29715, 29740, 30871, 32233, 32747, 33048, 33109, 33694,
     35916, 38446, 38929, 26352, 24448, 26106, 26505, 27754, 29579, 20525, 23043, 27498, 30702,
     22806, 23916, 24013, 29477, 30031, 63930, 63931, 20709, 20985, 22575, 22829, 22934, 23002,
     23525, 63932, 63933, 23970, 25303, 25622, 25747, 25854, 63934, 26332, 63935, 27208, 63936,
     29183, 29796, 63937]"

definition ksx1001_E9 :: "nat list" where
  "ksx1001_E9 =
    [31368, 31407, 32327, 32350, 32768, 33136, 63938, 34799, 35201, 35616, 36953, 63939, 36992,
     39250, 24958, 27442, 28020, 32287, 35109, 36785, 20433, 20653, 20887, 21191, 22471, 22665,
     23481, 24248, 24898, 27029, 28044, 28263, 28342, 29076, 29794, 29992, 29996, 32883, 33592,
     33993, 36362, 37780, 37854, 63940, 20110, 20305, 20598, 20778, 21448, 21451, 21491, 23431,
     23507, 23588, 24858, 24962, 26100, 29275, 29591, 29760, 30402, 31056, 31121, 31161, 32006,
     32701, 33419, 34261, 34398, 36802, 36935, 37109, 37354, 38533, 38632, 38633, 21206, 24423,
     26093, 26161, 26671, 29020, 31286, 37057, 38922, 20113, 63941, 27218, 27550, 28560, 29065,
     32792, 33464, 34131]"

definition ksx1001_EA :: "nat list" where
  "ksx1001_EA =
    [36939, 38549, 38642, 38907, 34074, 39729, 20112, 29066, 38596, 20803, 21407, 21729, 22291,
     22290, 22435, 23195, 23236, 23491, 24616, 24895, 25588, 27781, 27961, 28274, 28304, 29232,
     29503, 29783, 33489, 34945, 36677, 36960, 63942, 38498, 39000, 40219, 26376, 36234, 37470,
     20301, 20553, 20702, 21361, 22285, 22996, 23041, 23561, 24944, 26256, 28205, 29234, 29771,
     32239, 32963, 33806, 33894, 34111, 34655, 34907, 35096, 35586, 36949, 38859, 39759, 20083,
     20369, 20754, 20842, 63943, 21807, 21929, 23418, 23461, 24188, 24189, 24254, 24736, 24799,
     24840, 24841, 25540, 25912, 26377, 63944, 26580, 26586, 63945, 26977, 26978, 27833, 27943,
     63946, 28216, 63947]"

definition ksx1001_EB :: "nat list" where
  "ksx1001_EB =
    [28641, 29494, 29495, 63948, 29788, 30001, 63949, 30290, 63950, 63951, 32173, 33278, 33848,
     35029, 35480, 35547, 35565, 36400, 36418, 36938, 36926, 36986, 37193, 37321, 37742, 63952,
     63953, 22537, 63954, 27603, 32905, 32946, 63955, 63956, 20801, 22891, 23609, 63957, 63958,
     28516, 29607, 32996, 36103, 63959, 37399, 38287, 63960, 63961, 63962, 63963, 32895, 25102,
     28700, 32104, 34701, 63964, 22432, 24681, 24903, 27575, 35518, 37504, 38577, 20057, 21535,
     28139, 34093, 38512, 38899, 39150, 25558, 27875, 37009, 20957, 25033, 33210, 40441, 20381,
     20506, 20736, 23452, 24847, 25087, 25836, 26885, 27589, 30097, 30691, 32681, 33380, 34191,
     34811, 34915, 35516]"

definition ksx1001_EC :: "nat list" where
  "ksx1001_EC =
    [35696, 37291, 20108, 20197, 20234, 63965, 63966, 22839, 23016, 63967, 24050, 24347, 24411,
     24609, 63968, 63969, 63970, 63971, 29246, 29669, 63972, 30064, 30157, 63973, 31227, 63974,
     32780, 32819, 32900, 33505, 33617, 63975, 63976, 36029, 36019, 36999, 63977, 63978, 39156,
     39180, 63979, 63980, 28727, 30410, 32714, 32716, 32764, 35610, 20154, 20161, 20995, 21360,
     63981, 21693, 22240, 23035, 23493, 24341, 24525, 28270, 63982, 63983, 32106, 33589, 63984,
     34451, 35469, 63985, 38765, 38775, 63986, 63987, 19968, 20314, 20350, 22777, 26085, 28322,
     36920, 37808, 39353, 20219, 22764, 22922, 23001, 24641, 63988, 63989, 31252, 63990, 33615,
     36035, 20837, 21316]"

definition ksx1001_ED :: "nat list" where
  "ksx1001_ED =
    [63991, 63992, 63993, 20173, 21097, 23381, 33471, 20180, 21050, 21672, 22985, 23039, 23376,
     23383, 23388, 24675, 24904, 28363, 28825, 29038, 29574, 29943, 30133, 30913, 32043, 32773,
     33258, 33576, 34071, 34249, 35566, 36039, 38604, 20316, 21242, 22204, 26027, 26152, 28796,
     28856, 29237, 32189, 33421, 37196, 38592, 40306, 23409, 26855, 27544, 28538, 30430, 23697,
     26283, 28507, 31668, 31786, 34870, 38620, 19976, 20183, 21280, 22580, 22715, 22767, 22892,
     23559, 24115, 24196, 24373, 25484, 26290, 26454, 27167, 27299, 27404, 28479, 29254, 63994,
     29520, 29835, 31456, 31911, 33144, 33247, 33255, 33674, 33900, 34083, 34196, 34255, 35037,
     36115, 37292, 38263]"

definition ksx1001_EE :: "nat list" where
  "ksx1001_EE =
    [38556, 20877, 21705, 22312, 23472, 25165, 26448, 26685, 26771, 28221, 28371, 28797, 32289,
     35009, 36001, 36617, 40779, 40782, 29229, 31631, 35533, 37658, 20295, 20302, 20786, 21632,
     22992, 24213, 25269, 26485, 26990, 27159, 27822, 28186, 29401, 29482, 30141, 31672, 32053,
     33511, 33785, 33879, 34295, 35419, 36015, 36487, 36889, 37048, 38606, 40799, 21219, 21514,
     23265, 23490, 25688, 25973, 28404, 29380, 63995, 30340, 31309, 31515, 31821, 32318, 32735,
     33659, 35627, 36042, 36196, 36321, 36447, 36842, 36857, 36969, 37841, 20291, 20346, 20659,
     20840, 20856, 21069, 21098, 22625, 22652, 22880, 23560, 23637, 24283, 24731, 25136, 26643,
     27583, 27656, 28593]"

definition ksx1001_EF :: "nat list" where
  "ksx1001_EF =
    [29006, 29728, 30000, 30008, 30033, 30322, 31564, 31627, 31661, 31686, 32399, 35438, 36670,
     36681, 37439, 37523, 37666, 37931, 38651, 39002, 39019, 39198, 20999, 25130, 25240, 27993,
     30308, 31434, 31680, 32118, 21344, 23742, 24215, 28472, 28857, 31896, 38673, 39822, 40670,
     25509, 25722, 34678, 19969, 20117, 20141, 20572, 20597, 21576, 22979, 23450, 24128, 24237,
     24311, 24449, 24773, 25402, 25919, 25972, 26060, 26230, 26232, 26622, 26984, 27273, 27491,
     27712, 28096, 28136, 28191, 28254, 28702, 28833, 29582, 29693, 30010, 30555, 30855, 31118,
     31243, 31357, 31934, 32142, 33351, 35330, 35562, 35998, 37165, 37194, 37336, 37478, 37580,
     37664, 38662, 38742]"

definition ksx1001_F0 :: "nat list" where
  "ksx1001_F0 =
    [38748, 38914, 40718, 21046, 21137, 21884, 22564, 24093, 24351, 24716, 25552, 26799, 28639,
     31085, 31532, 33229, 34234, 35069, 35576, 36420, 37261, 38500, 38555, 38717, 38988, 40778,
     20430, 20806, 20939, 21161, 22066, 24340, 24427, 25514, 25805, 26089, 26177, 26362, 26361,
     26397, 26781, 26839, 27133, 28437, 28526, 29031, 29157, 29226, 29866, 30522, 31062, 31066,
     31199, 31264, 31381, 31895, 31967, 32068, 32368, 32903, 34299, 34468, 35412, 35519, 36249,
     36481, 36896, 36973, 37347, 38459, 38613, 40165, 26063, 31751, 36275, 37827, 23384, 23562,
     21330, 25305, 29469, 20519, 23447, 24478, 24752, 24939, 26837, 28121, 29742, 31278, 32066,
     32156, 32305, 33131]"

definition ksx1001_F1 :: "nat list" where
  "ksx1001_F1 =
    [36394, 36405, 37758, 37912, 20304, 22352, 24038, 24231, 25387, 32618, 20027, 20303, 20367,
     20570, 23005, 32964, 21610, 21608, 22014, 22863, 23449, 24030, 24282, 26205, 26417, 26609,
     26666, 27880, 27954, 28234, 28557, 28855, 29664, 30087, 31820, 32002, 32044, 32162, 33311,
     34523, 35387, 35461, 36208, 36490, 36659, 36913, 37198, 37202, 37956, 39376, 31481, 31909,
     20426, 20737, 20934, 22472, 23535, 23803, 26201, 27197, 27994, 28310, 28652, 28940, 30063,
     31459, 34850, 36897, 36981, 38603, 39423, 33537, 20013, 20210, 34886, 37325, 21373, 27355,
     26987, 27713, 33914, 22686, 24974, 26366, 25327, 28893, 29969, 30151, 32338, 33976, 35657,
     36104, 20043, 21482]"

definition ksx1001_F2 :: "nat list" where
  "ksx1001_F2 =
    [21675, 22320, 22336, 24535, 25345, 25351, 25711, 25903, 26088, 26234, 26525, 26547, 27490,
     27744, 27802, 28460, 30693, 30757, 31049, 31063, 32025, 32930, 33026, 33267, 33437, 33463,
     34584, 35468, 63996, 36100, 36286, 36978, 30452, 31257, 31287, 32340, 32887, 21767, 21972,
     22645, 25391, 25634, 26185, 26187, 26733, 27035, 27524, 27941, 28337, 29645, 29800, 29857,
     30043, 30137, 30433, 30494, 30603, 31206, 32265, 32285, 33275, 34095, 34967, 35386, 36049,
     36587, 36784, 36914, 37805, 38499, 38515, 38663, 20356, 21489, 23018, 23241, 24089, 26702,
     29894, 30142, 31209, 31378, 33187, 34541, 36074, 36300, 36845, 26015, 26389, 63997, 22519,
     28503, 32221, 36655]"

definition ksx1001_F3 :: "nat list" where
  "ksx1001_F3 =
    [37878, 38598, 24501, 25074, 28548, 19988, 20376, 20511, 21449, 21983, 23919, 24046, 27425,
     27492, 30923, 31642, 63998, 36425, 36554, 36974, 25417, 25662, 30528, 31364, 37679, 38015,
     40810, 25776, 28591, 29158, 29864, 29914, 31428, 31762, 32386, 31922, 32408, 35738, 36106,
     38013, 39184, 39244, 21049, 23519, 25830, 26413, 32046, 20717, 21443, 22649, 24920, 24921,
     25082, 26028, 31449, 35730, 35734, 20489, 20513, 21109, 21809, 23100, 24288, 24432, 24884,
     25950, 26124, 26166, 26274, 27085, 28356, 28466, 29462, 30241, 31379, 33081, 33369, 33750,
     33980, 20661, 22512, 23488, 23528, 24425, 25505, 30758, 32181, 33756, 34081, 37319, 37365,
     20874, 26613, 31574]"

definition ksx1001_F4 :: "nat list" where
  "ksx1001_F4 =
    [36012, 20932, 22971, 24765, 34389, 20508, 63999, 21076, 23610, 24957, 25114, 25299, 25842,
     26021, 28364, 30240, 33034, 36448, 38495, 38587, 20191, 21315, 21912, 22825, 24029, 25797,
     27849, 28154, 29588, 31359, 33307, 34214, 36068, 36368, 36983, 37351, 38369, 38433, 38854,
     20984, 21746, 21894, 24505, 25764, 28552, 32180, 36639, 36685, 37941, 20681, 23574, 27838,
     28155, 29979, 30651, 31805, 31844, 35449, 35522, 22558, 22974, 24086, 25463, 29266, 30090,
     30571, 35548, 36028, 36626, 24307, 26228, 28152, 32893, 33729, 35531, 38737, 39894, 64000,
     21059, 26367, 28053, 28399, 32224, 35558, 36910, 36958, 39636, 21021, 21119, 21736, 24980,
     25220, 25307, 26786]"

definition ksx1001_F5 :: "nat list" where
  "ksx1001_F5 =
    [26898, 26970, 27189, 28818, 28966, 30813, 30977, 30990, 31186, 31245, 32918, 33400, 33493,
     33609, 34121, 35970, 36229, 37218, 37259, 37294, 20419, 22225, 29165, 30679, 34560, 35320,
     23544, 24534, 26449, 37032, 21474, 22618, 23541, 24740, 24961, 25696, 32317, 32880, 34085,
     37507, 25774, 20652, 23828, 26368, 22684, 25277, 25512, 26894, 27000, 27166, 28267, 30394,
     31179, 33467, 33833, 35535, 36264, 36861, 37138, 37195, 37276, 37648, 37656, 37786, 38619,
     39478, 39949, 19985, 30044, 31069, 31482, 31569, 31689, 32302, 33988, 36441, 36468, 36600,
     36880, 26149, 26943, 29763, 20986, 26414, 40668, 20805, 24544, 27798, 34802, 34909, 34935,
     24756, 33205, 33795]"

definition ksx1001_F6 :: "nat list" where
  "ksx1001_F6 =
    [36101, 21462, 21561, 22068, 23094, 23601, 28810, 32736, 32858, 33030, 33261, 36259, 37257,
     39519, 40434, 20596, 20164, 21408, 24827, 28204, 23652, 20360, 20516, 21988, 23769, 24159,
     24677, 26772, 27835, 28100, 29118, 30164, 30196, 30305, 31258, 31305, 32199, 32251, 32622,
     33268, 34473, 36636, 38601, 39347, 40786, 21063, 21189, 39149, 35242, 19971, 26578, 28422,
     20405, 23522, 26517, 27784, 28024, 29723, 30759, 37341, 37756, 34756, 31204, 31281, 24555,
     20182, 21668, 21822, 22702, 22949, 24816, 25171, 25302, 26422, 26965, 33333, 38464, 39345,
     39389, 20524, 21331, 21828, 22396, 64001, 25176, 64002, 25826, 26219, 26589, 28609, 28655,
     29730, 29752, 35351]"

definition ksx1001_F7 :: "nat list" where
  "ksx1001_F7 =
    [37944, 21585, 22022, 22374, 24392, 24986, 27470, 28760, 28845, 32187, 35477, 22890, 33067,
     25506, 30472, 32829, 36010, 22612, 25645, 27067, 23445, 24081, 28271, 64003, 34153, 20812,
     21488, 22826, 24608, 24907, 27526, 27760, 27888, 31518, 32974, 33492, 36294, 37040, 39089,
     64004, 25799, 28580, 25745, 25860, 20814, 21520, 22303, 35342, 24927, 26742, 64005, 30171,
     31570, 32113, 36890, 22534, 27084, 33151, 35114, 36864, 38969, 20600, 22871, 22956, 25237,
     36879, 39722, 24925, 29305, 38358, 22369, 23110, 24052, 25226, 25773, 25850, 26487, 27874,
     27966, 29228, 29750, 30772, 32631, 33453, 36315, 38935, 21028, 22338, 26495, 29256, 29923,
     36009, 36774, 37393]"

definition ksx1001_F8 :: "nat list" where
  "ksx1001_F8 =
    [38442, 20843, 21485, 25420, 20329, 21764, 24726, 25943, 27803, 28031, 29260, 29437, 31255,
     35207, 35997, 24429, 28558, 28921, 33192, 24846, 20415, 20559, 25153, 29255, 31687, 32232,
     32745, 36941, 38829, 39449, 36022, 22378, 24179, 26544, 33805, 35413, 21536, 23318, 24163,
     24290, 24330, 25987, 32954, 34109, 38281, 38491, 20296, 21253, 21261, 21263, 21638, 21754,
     22275, 24067, 24598, 25243, 25265, 25429, 64006, 27873, 28006, 30129, 30770, 32990, 33071,
     33502, 33889, 33970, 34957, 35090, 36875, 37610, 39165, 39825, 24133, 26292, 26333, 28689,
     29190, 64007, 20469, 21117, 24426, 24915, 26451, 27161, 28418, 29922, 31080, 34920, 35961,
     39111, 39108, 39491]"

definition ksx1001_F9 :: "nat list" where
  "ksx1001_F9 =
    [21697, 31263, 26963, 35575, 35914, 39080, 39342, 24444, 25259, 30130, 30382, 34987, 36991,
     38466, 21305, 24380, 24517, 27852, 29644, 30050, 30091, 31558, 33534, 39325, 20047, 36924,
     19979, 20309, 21414, 22799, 24264, 26160, 27827, 29781, 33655, 34662, 36032, 36944, 38686,
     39957, 22737, 23416, 34384, 35604, 40372, 23506, 24680, 24717, 26097, 27735, 28450, 28579,
     28698, 32597, 32752, 38289, 38290, 38480, 38867, 21106, 36676, 20989, 21547, 21688, 21859,
     21898, 27323, 28085, 32216, 33382, 37532, 38519, 40569, 21512, 21704, 30418, 34532, 38308,
     38356, 38492, 20130, 20233, 23022, 23270, 24055, 24658, 25239, 26477, 26689, 27782, 28207,
     32568, 32923, 33322]"

definition ksx1001_FA :: "nat list" where
  "ksx1001_FA =
    [64008, 64009, 38917, 20133, 20565, 21683, 22419, 22874, 23401, 23475, 25032, 26999, 28023,
     28707, 34809, 35299, 35442, 35559, 36994, 39405, 39608, 21182, 26680, 20502, 24184, 26447,
     33607, 34892, 20139, 21521, 22190, 29670, 37141, 38911, 39177, 39255, 39321, 22099, 22687,
     34395, 35377, 25010, 27382, 29563, 36562, 27463, 38570, 39511, 22869, 29184, 36203, 38761,
     20436, 23796, 24358, 25080, 26203, 27883, 28843, 29572, 29625, 29694, 30505, 30541, 32067,
     32098, 32291, 33335, 34898, 64010, 36066, 37449, 39023, 23377, 31348, 34880, 38913, 23244,
     20448, 21332, 22846, 23805, 25406, 28025, 29433, 33029, 33031, 33698, 37583, 38960, 20136,
     20804, 21009, 22411]"

definition ksx1001_FB :: "nat list" where
  "ksx1001_FB =
    [24418, 27842, 28366, 28677, 28752, 28847, 29074, 29673, 29801, 33610, 34722, 34913, 36872,
     37026, 37795, 39336, 20846, 24407, 24800, 24935, 26291, 34137, 36426, 37295, 38795, 20046,
     20114, 21628, 22741, 22778, 22909, 23733, 24359, 25142, 25160, 26122, 26215, 27627, 28009,
     28111, 28246, 28408, 28564, 28640, 28649, 28765, 29392, 29733, 29786, 29920, 30355, 31068,
     31946, 32286, 32993, 33446, 33899, 33983, 34382, 34399, 34676, 35703, 35946, 37804, 38912,
     39013, 24785, 25110, 37239, 23130, 26127, 28151, 28222, 29759, 39746, 24573, 24794, 31503,
     21700, 24344, 27742, 27859, 27946, 28888, 32005, 34425, 35340, 40251, 21270, 21644, 23301,
     27194, 28779, 30069]"

definition ksx1001_FC :: "nat list" where
  "ksx1001_FC =
    [31117, 31166, 33457, 33775, 35441, 35649, 36008, 38772, 64011, 25844, 25899, 30906, 30907,
     31339, 20024, 21914, 22864, 23462, 24187, 24739, 25563, 27489, 26213, 26707, 28185, 29029,
     29872, 32008, 36996, 39529, 39973, 27963, 28369, 29502, 35905, 38346, 20976, 24140, 24488,
     24653, 24822, 24880, 24908, 26179, 26180, 27045, 27841, 28255, 28361, 28514, 29004, 29852,
     30343, 31681, 31783, 33618, 34647, 36945, 38541, 40643, 21295, 22238, 24315, 24458, 24674,
     24724, 25079, 26214, 26371, 27292, 28142, 28590, 28784, 29546, 32362, 33214, 33588, 34516,
     35496, 36036, 21123, 29554, 23446, 27243, 37892, 21742, 22150, 23389, 25928, 25989, 26313,
     26783, 28045, 28102]"

definition ksx1001_FD :: "nat list" where
  "ksx1001_FD =
    [29243, 32948, 37237, 39501, 20399, 20505, 21402, 21518, 21564, 21897, 21957, 24127, 24460,
     26429, 29030, 29661, 36869, 21211, 21235, 22628, 22734, 28932, 29071, 29179, 34224, 35347,
     26248, 34216, 21927, 26244, 29002, 33841, 21321, 21913, 27585, 24409, 24509, 25582, 26249,
     28999, 35569, 36637, 40638, 20241, 25658, 28875, 30054, 34407, 24676, 35662, 40440, 20807,
     20982, 21256, 27958, 33016, 40657, 26133, 27427, 28824, 30165, 21507, 23673, 32007, 35350,
     27424, 27453, 27462, 21560, 24688, 27965, 32725, 33288, 20694, 20958, 21916, 22123, 22221,
     23020, 23305, 24076, 24985, 24984, 25137, 26206, 26342, 29081, 29113, 29114, 29351, 31143,
     31232, 32690, 35440]"

definition ksx1001_rows :: "nat list list" where
  "ksx1001_rows =
    [ksx1001_A1, ksx1001_A2, ksx1001_A3, ksx1001_A4, ksx1001_A5, ksx1001_A6, ksx1001_A7,
     ksx1001_A8, ksx1001_A9, ksx1001_AA, ksx1001_AB, ksx1001_AC, [], [], [], ksx1001_B0,
     ksx1001_B1, ksx1001_B2, ksx1001_B3, ksx1001_B4, ksx1001_B5, ksx1001_B6, ksx1001_B7,
     ksx1001_B8, ksx1001_B9, ksx1001_BA, ksx1001_BB, ksx1001_BC, ksx1001_BD, ksx1001_BE,
     ksx1001_BF, ksx1001_C0, ksx1001_C1, ksx1001_C2, ksx1001_C3, ksx1001_C4, ksx1001_C5,
     ksx1001_C6, ksx1001_C7, ksx1001_C8, [], ksx1001_CA, ksx1001_CB, ksx1001_CC, ksx1001_CD,
     ksx1001_CE, ksx1001_CF, ksx1001_D0, ksx1001_D1, ksx1001_D2, ksx1001_D3, ksx1001_D4,
     ksx1001_D5, ksx1001_D6, ksx1001_D7, ksx1001_D8, ksx1001_D9, ksx1001_DA, ksx1001_DB,
     ksx1001_DC, ksx1001_DD, ksx1001_DE, ksx1001_DF, ksx1001_E0, ksx1001_E1, ksx1001_E2,
     ksx1001_E3, ksx1001_E4, ksx1001_E5, ksx1001_E6, ksx1001_E7, ksx1001_E8, ksx1001_E9,
     ksx1001_EA, ksx1001_EB, ksx1001_EC, ksx1001_ED, ksx1001_EE, ksx1001_EF, ksx1001_F0,
     ksx1001_F1, ksx1001_F2, ksx1001_F3, ksx1001_F4, ksx1001_F5, ksx1001_F6, ksx1001_F7,
     ksx1001_F8, ksx1001_F9, ksx1001_FA, ksx1001_FB, ksx1001_FC, ksx1001_FD]"

definition ksx1001 :: "nat \<Rightarrow> nat \<Rightarrow> nat option" where
  "ksx1001 c d =
     (if 161 \<le> c \<and> c \<le> 253 \<and> 161 \<le> d \<and> d \<le> 254 then
        (let row = ksx1001_rows ! (c - 161)
         in if d - 161 < length row \<and> row ! (d - 161) \<noteq> 0
            then Some (row ! (d - 161)) else None)
      else None)"

text \<open>
  The make-up sequences of KS X 1001:1998, Annex 3: the eight bytes
  A4 D4 A4 x A4 y A4 z spell one syllable from an initial consonant x, a vowel y and a
  final consonant z (D4 for none). Fewer than eight bytes from A4 D4 on are an incomplete
  sequence, which takes all that is left of the input.
\<close>

definition choseong :: "nat \<Rightarrow> nat option" where
  "choseong x = map_of
    [(161, 0), (162, 1), (164, 2), (167, 3), (168, 4), (169, 5), (177, 6), (178, 7), (179, 8),
     (181, 9), (182, 10), (183, 11), (184, 12), (185, 13), (186, 14), (187, 15), (188, 16),
     (189, 17), (190, 18)] x"

definition jungseong :: "nat \<Rightarrow> nat option" where
  "jungseong y = (if 191 \<le> y \<and> y \<le> 211 then Some (y - 191) else None)"

definition jongseong :: "nat \<Rightarrow> nat option" where
  "jongseong z = map_of
    [(161, 1), (162, 2), (163, 3), (164, 4), (165, 5), (166, 6), (167, 7), (169, 8), (170, 9),
     (171, 10), (172, 11), (173, 12), (174, 13), (175, 14), (176, 15), (177, 16), (178, 17),
     (180, 18), (181, 19), (182, 20), (183, 21), (184, 22), (186, 23), (187, 24), (188, 25),
     (189, 26), (190, 27), (212, 0)] z"

definition make_up :: "nat list \<Rightarrow> step" where
  "make_up bs =
     (if length bs < 8 then Invalid (length bs - 1)
      else if bs ! 2 \<noteq> 164 \<or> bs ! 4 \<noteq> 164 \<or> bs ! 6 \<noteq> 164 then Invalid 0
      else (case (choseong (bs ! 3), jungseong (bs ! 5), jongseong (bs ! 7)) of
              (Some cho, Some jung, Some jong) \<Rightarrow>
                Decoded (44032 + cho * 588 + jung * 28 + jong) 7
            | _ \<Rightarrow> Invalid 0))"

text \<open>
  One step of the decoder: a byte below 128 is ASCII; A4 D4 opens a make-up sequence;
  any other byte leads a two-byte sequence, which is invalid in its first byte when the
  table has no entry for it, and incomplete when no byte follows.
\<close>

definition euc_kr :: codec where
  "euc_kr bs =
     (case bs of
        [] \<Rightarrow> Invalid 0
      | c # rest \<Rightarrow>
          if c < 128 then Decoded c 0
          else (case rest of
                  [] \<Rightarrow> Invalid 0
                | d # _ \<Rightarrow>
                    if c = 164 \<and> d = 212 then make_up bs
                    else (case ksx1001 c d of
                            Some u \<Rightarrow> Decoded u 1
                          | None \<Rightarrow> Invalid 0)))"

definition notices_of :: "py_exception + pystr \<times> notice list \<Rightarrow> notice list" where
  "notices_of r = (case r of Inl x \<Rightarrow> [] | Inr tn \<Rightarrow> snd tn)"

section \<open>The parse tree\<close>

text \<open>
  What \<^verbatim>\<open>BeautifulSoup(text_content, 'html.parser')\<close> builds: text nodes
  (\<^verbatim>\<open>NavigableString\<close>), comments (strings that \<^verbatim>\<open>get_text\<close> leaves out) and tags with a
  name, attributes and contents. The soup itself is the list of its top-level nodes.
\<close>

type_synonym attrs = "(pystr \<times> pystr) list"

datatype node =
    NavigableString pystr
  | Comment pystr
  | Tag pystr attrs "node list"

type_synonym soup = "node list"

fun is_tag_named :: "pystr \<Rightarrow> node \<Rightarrow> bool" where
  "is_tag_named t (Tag n a ks) = (n = t)"
| "is_tag_named t _ = False"

text \<open>\<^verbatim>\<open>tag.get(key)\<close>.\<close>

fun get_attr :: "node \<Rightarrow> pystr \<Rightarrow> pystr option" where
  "get_attr (Tag n a ks) key = map_of a key"
| "get_attr _ key = None"

text \<open>\<^verbatim>\<open>sep.join(xs)\<close>.\<close>

fun join_with :: "pystr \<Rightarrow> pystr list \<Rightarrow> pystr" where
  "join_with sep [] = []"
| "join_with sep [x] = x"
| "join_with sep (x # y # zs) = x @ sep @ join_with sep (y # zs)"

text \<open>
  The values of a \<^verbatim>\<open>class\<close> attribute are its whitespace-separated tokens; a class
  matches a tag when it is one of the tokens or the tokens joined by single spaces.
\<close>

definition tokens :: "pystr \<Rightarrow> pystr list" where
  "tokens s = filter (\<lambda>w. w \<noteq> []) (split_on 32 (sub_ws s))"

fun has_class :: "pystr \<Rightarrow> node \<Rightarrow> bool" where
  "has_class c (Tag n a ks) =
     (case map_of a (lit ''class'') of
        None \<Rightarrow> False
      | Some v \<Rightarrow> c \<in> set (tokens v) \<or> join_with [32] (tokens v) = c)"
| "has_class c _ = False"

text \<open>The nodes below a node, and below the soup, in document order.\<close>

fun descendants :: "node \<Rightarrow> node list" where
  "descendants (Tag n a ks) = concat (map (\<lambda>k. k # descendants k) ks)"
| "descendants _ = []"

definition soup_descendants :: "soup \<Rightarrow> node list" where
  "soup_descendants sp = concat (map (\<lambda>k. k # descendants k) sp)"

text \<open>\<^verbatim>\<open>soup.find(...)\<close>: the first tag of the document that matches, if any.\<close>

definition find_first :: "(node \<Rightarrow> bool) \<Rightarrow> soup \<Rightarrow> node option" where
  "find_first P sp = find P (soup_descendants sp)"

text \<open>
  \<^verbatim>\<open>tag.string\<close>: the only child when it is a string, the \<^verbatim>\<open>.string\<close> of the only child
  when it is a tag, and \<^verbatim>\<open>None\<close> otherwise.
\<close>

fun string_of :: "node \<Rightarrow> pystr option" where
  "string_of (Tag n a [NavigableString s]) = Some s"
| "string_of (Tag n a [Comment s]) = Some s"
| "string_of (Tag n a [Tag m b ks]) = string_of (Tag m b ks)"
| "string_of _ = None"

text \<open>
  \<^verbatim>\<open>tag.get_text(separator, strip)\<close>: the text nodes below the tag in document order,
  each stripped and the empty ones dropped when \<^verbatim>\<open>strip\<close> is set, joined by the
  separator.
\<close>

fun strings :: "node \<Rightarrow> pystr list" where
  "strings (NavigableString s) = [s]"
| "strings (Comment s) = []"
| "strings (Tag n a ks) = concat (map strings ks)"

definition get_text :: "pystr \<Rightarrow> bool \<Rightarrow> node \<Rightarrow> pystr" where
  "get_text sep strp n =
     join_with sep
       (if strp then filter (\<lambda>s. s \<noteq> []) (map strip (strings n)) else strings n)"

section \<open>Title extractor (lines 69 to 71)\<close>

definition is_og_title :: "node \<Rightarrow> bool" where
  "is_og_title n \<longleftrightarrow>
     is_tag_named (lit ''meta'') n \<and> get_attr n (lit ''property'') = Some (lit ''og:title'')"

text \<open>
  Line 70 yields a string or \<^verbatim>\<open>None\<close>; line 71 strips it when it is neither \<^verbatim>\<open>None\<close>
  nor empty.
\<close>

definition extract_title :: "soup \<Rightarrow> pystr" where
  "extract_title sp =
     (let title_tag = find_first is_og_title sp;
          from_title =
            (case find_first (is_tag_named (lit ''title'')) sp of
               Some t \<Rightarrow> string_of t
             | None \<Rightarrow> Some NO_TITLE);
          title =
            (case title_tag of
               Some t \<Rightarrow>
                 (case get_attr t (lit ''content'') of
                    Some c \<Rightarrow> if c \<noteq> [] then Some c else from_title
                  | None \<Rightarrow> from_title)
             | None \<Rightarrow> from_title)
      in case title of
           Some s \<Rightarrow> if s \<noteq> [] then strip s else NO_TITLE
         | None \<Rightarrow> NO_TITLE)"

section \<open>Body extractor (lines 74 to 137)\<close>

text \<open>
  The catalog of lines 76 to 97. Each literal is written with the branch of lines 102 to
  111 that it takes: a literal with brackets goes to \<^verbatim>\<open>select_one\<close>, one with a dot is
  split into a tag and a class, one with \<^verbatim>\<open>#\<close> into a tag and an id, and \<^verbatim>\<open>article\<close> is a
  tag name.
\<close>

datatype selector =
    Attr_selector pystr pystr pystr
  | Class_selector pystr pystr
  | Id_selector pystr pystr
  | Tag_selector pystr

definition possible_body_selectors :: "selector list" where
  "possible_body_selectors =
     [Class_selector (lit ''div'') (lit ''article_view''),
      Class_selector (lit ''div'') (lit ''article_head_body''),
      Id_selector (lit ''div'') (lit ''article_content''),
      Class_selector (lit ''div'') (lit ''article_body_content''),
      Id_selector (lit ''div'') (lit ''harmonyContainer''),
      Class_selector (lit ''div'') (lit ''article-view-content-wrapper''),
      Class_selector (lit ''div'') (lit ''news_content''),
      Class_selector (lit ''div'') (lit ''article_content''),
      Class_selector (lit ''div'') (lit ''body_content''),
      Class_selector (lit ''div'') (lit ''entry-content''),
      Class_selector (lit ''section'') (lit ''article-body''),
      Class_selector (lit ''div'') (lit ''view_page_text''),
      Attr_selector (lit ''div'') (lit ''itemprop'') (lit ''articleBody''),
      Tag_selector (lit ''article''),
      Id_selector (lit ''div'') (lit ''articleBody''),
      Class_selector (lit ''div'') (lit ''contents_area''),
      Class_selector (lit ''div'') (lit ''news_view''),
      Class_selector (lit ''div'') (lit ''view_txt''),
      Class_selector (lit ''div'') (lit ''txt_area''),
      Class_selector (lit ''div'') (lit ''article_text''),
      Class_selector (lit ''div'') (lit ''news_content_area''),
      Class_selector (lit ''div'') (lit ''cont_art'')]"

fun selects :: "selector \<Rightarrow> node \<Rightarrow> bool" where
  "selects (Attr_selector t k v) n = (is_tag_named t n \<and> get_attr n k = Some v)"
| "selects (Class_selector t c) n = (is_tag_named t n \<and> has_class c n)"
| "selects (Id_selector t i) n = (is_tag_named t n \<and> get_attr n (lit ''id'') = Some i)"
| "selects (Tag_selector t) n = is_tag_named t n"

text \<open>
  Lines 115 to 117. \<^verbatim>\<open>find_all\<close> lists the listed tags below the body element in document
  order, a tag before the tags inside it; a tag is decomposed when its own text is blank
  or it is one of the five tags that are always removed, and whatever lies inside a
  decomposed tag is gone with it. So the tags that go are the outermost ones that meet the
  test, the body element itself is never one of them, and the cleaning goes on inside
  the tags that stay.
\<close>

definition cleanup_tags :: "pystr list" where
  "cleanup_tags = map lit [''script'', ''style'', ''ins'', ''iframe'', ''noscript'', ''img'',
     ''figure'', ''ul'', ''ol'', ''blockquote'', ''a'', ''strong'', ''em'']"

definition always_removed :: "pystr list" where
  "always_removed = map lit [''script'', ''style'', ''ins'', ''iframe'', ''noscript'']"

fun decomposed :: "node \<Rightarrow> bool" where
  "decomposed (Tag n a ks) =
     (n \<in> set cleanup_tags \<and>
      (strip (get_text [] True (Tag n a ks)) = [] \<or> n \<in> set always_removed))"
| "decomposed _ = False"

fun clean :: "node \<Rightarrow> node" where
  "clean (Tag n a ks) = Tag n a (map clean (filter (\<lambda>k. \<not> decomposed k) ks))"
| "clean k = k"

text \<open>
  The body element is a reference into the soup, so cleaning it changes the soup that
  the later selectors and the paragraph fallback search. \<open>find_and_update P f sp\<close> finds the
  first tag of the document that satisfies \<open>P\<close>, replaces it by its image under \<open>f\<close>, and
  returns the new soup with the new element; it returns \<open>None\<close> when no tag matches.
\<close>

fun find_and_update :: "(node \<Rightarrow> bool) \<Rightarrow> (node \<Rightarrow> node) \<Rightarrow> soup \<Rightarrow> (soup \<times> node) option" where
  "find_and_update P f [] = None"
| "find_and_update P f (Tag n a cs # ks) =
     (if P (Tag n a cs) then Some (f (Tag n a cs) # ks, f (Tag n a cs))
      else (case find_and_update P f cs of
              Some (cs', el) \<Rightarrow> Some (Tag n a cs' # ks, el)
            | None \<Rightarrow>
                (case find_and_update P f ks of
                   Some (ks', el) \<Rightarrow> Some (Tag n a cs # ks', el)
                 | None \<Rightarrow> None)))"
| "find_and_update P f (k # ks) =
     (case find_and_update P f ks of
        Some (ks', el) \<Rightarrow> Some (k # ks', el)
      | None \<Rightarrow> None)"

text \<open>
  The loop of lines 100 to 123, from a given body: each selector that finds an element
  overwrites the body with the cleaned, normalized text of the element, and the scan
  stops as soon as that text is longer than 150 characters.
\<close>

fun scan_selectors :: "selector list \<Rightarrow> soup \<Rightarrow> pystr \<Rightarrow> pystr \<times> soup" where
  "scan_selectors [] sp body = (body, sp)"
| "scan_selectors (sel # sels) sp body =
     (case find_and_update (selects sel) clean sp of
        None \<Rightarrow> scan_selectors sels sp body
      | Some (sp', body_element) \<Rightarrow>
          (let body' = normalize (get_text [32] True body_element)
           in if 150 < length body' then (body', sp') else scan_selectors sels sp' body'))"

text \<open>
  \<^verbatim>\<open>soup.find_all(name)\<close> with, for each tag found, its parents from the nearest one
  outwards, as \<^verbatim>\<open>find_parent\<close> walks them.
\<close>

fun find_all_with_parents :: "pystr \<Rightarrow> node list \<Rightarrow> soup \<Rightarrow> (node \<times> node list) list" where
  "find_all_with_parents t ps [] = []"
| "find_all_with_parents t ps (Tag n a cs # ks) =
     (if n = t then [(Tag n a cs, ps)] else []) @
     find_all_with_parents t (Tag n a cs # ps) cs @ find_all_with_parents t ps ks"
| "find_all_with_parents t ps (k # ks) = find_all_with_parents t ps ks"

definition excluded_classes :: "pystr list" where
  "excluded_classes = map lit [''reply'', ''footer'', ''copyright'', ''ad_unit'']"

text \<open>Line 129: the paragraphs kept by the fallback.\<close>

definition valid_paragraph :: "node \<times> node list \<Rightarrow> bool" where
  "valid_paragraph pp \<longleftrightarrow>
     20 < length (get_text [] True (fst pp)) \<and>
     \<not> list_ex (\<lambda>parent. list_ex (\<lambda>c. has_class c parent) excluded_classes) (snd pp)"

definition valid_paragraphs :: "soup \<Rightarrow> node list" where
  "valid_paragraphs sp = map fst (filter valid_paragraph (find_all_with_parents (lit ''p'') [] sp))"

text \<open>The test of line 126 and the fallback of lines 127 to 134.\<close>

definition fallback_needed :: "pystr \<Rightarrow> bool" where
  "fallback_needed body \<longleftrightarrow> body = [] \<or> length body < 150"

definition temp_body :: "soup \<Rightarrow> pystr" where
  "temp_body sp = normalize (join_with [32] (map (get_text [32] True) (valid_paragraphs sp)))"

definition paragraph_fallback :: "soup \<Rightarrow> pystr \<Rightarrow> pystr" where
  "paragraph_fallback sp body =
     (if valid_paragraphs sp \<noteq> [] then
        (if 100 < length (temp_body sp) then temp_body sp else body)
      else body)"

definition extract_body :: "soup \<Rightarrow> pystr" where
  "extract_body sp =
     (let (body, sp') = scan_selectors possible_body_selectors sp [];
          body = (if fallback_needed body then paragraph_fallback sp' body else body)
      in if body = [] then NO_BODY else body)"

section \<open>Orchestration (lines 39 to 160)\<close>

text \<open>
  What the function cannot decide by itself is a parameter: the outcome of
  \<^verbatim>\<open>requests.get(url, headers=headers, timeout=10)\<close>, which returns a response or raises;
  the parser, which returns a soup or raises; and the table of the \<^verbatim>\<open>euc-kr\<close> codec.
\<close>

record env =
  fetch :: "pystr \<Rightarrow> py_exception + response"
  parse :: "pystr \<Rightarrow> py_exception + soup"
  euc_kr_codec :: codec

type_synonym extraction = "pystr \<times> pystr \<times> pystr"

text \<open>
  The \<^verbatim>\<open>try\<close> block of lines 44 to 153: the triple it returns or the exception that leaves
  it, with the messages shown until then.
\<close>

definition try_block :: "env \<Rightarrow> pystr \<Rightarrow> (py_exception + extraction) \<times> notice list" where
  "try_block ev url =
     (case fetch ev url of
        Inl x \<Rightarrow> (Inl x, [])
      | Inr response \<Rightarrow>
          (case raise_for_status response of
             Inl x \<Rightarrow> (Inl x, [])
           | Inr _ \<Rightarrow>
               (case resolve_encoding (euc_kr_codec ev) response url of
                  Inl x \<Rightarrow> (Inl x, [])
                | Inr (text_content, shown) \<Rightarrow>
                    (case parse ev text_content of
                       Inl x \<Rightarrow> (Inl x, shown)
                     | Inr sp \<Rightarrow>
                         (let title = extract_title sp;
                              body = extract_body sp
                          in case extract_source url of
                               Inl x \<Rightarrow> (Inl x, shown)
                             | Inr source \<Rightarrow> (Inr (title, body, source), shown))))))"

text \<open>
  The handlers of lines 155 to 160: a \<^verbatim>\<open>RequestException\<close> gives three empty strings and
  \<^verbatim>\<open>st.error\<close>, any other exception the three sentinels and \<^verbatim>\<open>st.warning\<close>.
\<close>

definition extract_info_from_url :: "env \<Rightarrow> pystr \<Rightarrow> extraction \<times> notice list" where
  "extract_info_from_url ev url =
     (case try_block ev url of
        (Inr result, shown) \<Rightarrow> (result, shown)
      | (Inl (RequestException e), shown) \<Rightarrow>
          (([], [], []), shown @ [Error_request (RequestException e)])
      | (Inl x, shown) \<Rightarrow>
          ((NO_TITLE, NO_BODY, UNKNOWN_SOURCE), shown @ [Warning_unexpected x]))"

text \<open>An environment in which the fetch returns the given response and the parser the given soup.\<close>

definition serving :: "response \<Rightarrow> soup \<Rightarrow> env" where
  "serving r sp =
     \<lparr>fetch = (\<lambda>url. Inr r), parse = (\<lambda>t. Inr sp), euc_kr_codec = euc_kr\<rparr>"

definition plain_response :: "nat \<Rightarrow> response" where
  "plain_response status =
     \<lparr>status_code = status,
      headers = [(lit ''Content-Type'', lit ''text/html; charset=utf-8'')],
      content = [], text_of = []\<rparr>"

text \<open>A page served with \<^verbatim>\<open>Content-Type: text/html; charset=EUC-KR\<close> and the given body.\<close>

definition declared_euckr :: "nat list \<Rightarrow> response" where
  "declared_euckr bs =
     \<lparr>status_code = 200,
      headers = [(lit ''Content-Type'', lit ''text/html; charset=EUC-KR'')],
      content = bs, text_of = projr (decode euc_kr Replace bs)\<rparr>"

text \<open>A run of two or more consecutive whitespace characters.\<close>

fun has_ws_run :: "pystr \<Rightarrow> bool" where
  "has_ws_run (c # d # cs) = ((isspace c \<and> isspace d) \<or> has_ws_run (d # cs))"
| "has_ws_run _ = False"

section \<open>Whitespace normalization\<close>

lemma isspace_32: "isspace 32"
  by (simp add: isspace_def)

lemma squeezed_tl: "squeezed (c # cs) \<Longrightarrow> squeezed cs"
  by (cases cs) auto

lemma squeezed_dropWhile: "squeezed s \<Longrightarrow> squeezed (dropWhile P s)"
  by (induction s) (auto dest: squeezed_tl)

lemma squeezed_sub_ws: "squeezed (sub_ws s)"
proof (induction s rule: sub_ws.induct)
  case 1
  show ?case by simp
next
  case (2 c cs)
  show ?case
  proof (cases "isspace c")
    case True
    let ?r = "dropWhile isspace cs"
    have sq: "squeezed (sub_ws ?r)" using 2(1) True by simp
    show ?thesis
    proof (cases ?r)
      case Nil
      show ?thesis by (simp add: True Nil)
    next
      case (Cons d ds)
      then have "\<not> isspace d"
        by (metis hd_dropWhile list.sel(1) list.distinct(1))
      then have "sub_ws ?r = d # sub_ws ds" using Cons by simp
      with sq \<open>\<not> isspace d\<close> True show ?thesis by (simp add: isspace_32)
    qed
  next
    case False
    then have sq: "squeezed (sub_ws cs)" using 2(2) by simp
    then show ?thesis using False by (cases "sub_ws cs") auto
  qed
qed

lemma sub_ws_squeezed: "squeezed s \<Longrightarrow> sub_ws s = s"
proof (induction s rule: squeezed.induct)
  case 1
  show ?case by simp
next
  case (2 c)
  then show ?case by simp
next
  case (3 c d cs)
  then show ?case by auto
qed

lemma squeezed_butlast: "squeezed s \<Longrightarrow> squeezed (butlast s)"
  by (induction s rule: squeezed.induct) (auto split: if_splits)

lemma squeezed_rev_dropWhile_rev:
  "squeezed s \<Longrightarrow> squeezed (rev (dropWhile P (rev s)))"
proof (induction s rule: rev_induct)
  case Nil
  show ?case by simp
next
  case (snoc x xs)
  have "squeezed xs" using squeezed_butlast [OF snoc.prems] by simp
  with snoc show ?case by auto
qed

lemma squeezed_strip: "squeezed s \<Longrightarrow> squeezed (strip s)"
  unfolding strip_def by (intro squeezed_rev_dropWhile_rev squeezed_dropWhile)

lemma dropWhile_idem: "dropWhile P (dropWhile P s) = dropWhile P s"
  by (induction s) auto

lemma rev_dropWhile_rev_prefix:
  "xs = rev (dropWhile P (rev xs)) @ rev (takeWhile P (rev xs))"
proof -
  have "rev xs = takeWhile P (rev xs) @ dropWhile P (rev xs)" by simp
  then have "rev (rev xs) = rev (takeWhile P (rev xs) @ dropWhile P (rev xs))" by simp
  then show ?thesis by (simp del: takeWhile_dropWhile_id)
qed

lemma strip_no_leading: "dropWhile isspace (strip s) = strip s"
proof (cases "strip s")
  case Nil
  then show ?thesis by simp
next
  case (Cons a as)
  let ?t = "dropWhile isspace s"
  have eq: "rev (dropWhile isspace (rev ?t)) = a # as"
    using Cons by (simp add: strip_def)
  have "?t = (a # as) @ rev (takeWhile isspace (rev ?t))"
    using rev_dropWhile_rev_prefix [of ?t isspace] unfolding eq .
  then have t: "?t = a # (as @ rev (takeWhile isspace (rev ?t)))" by simp
  have ne: "?t \<noteq> []" using t by (metis list.distinct(1))
  have "\<not> isspace (hd ?t)"
    by (rule hd_dropWhile [OF ne])
  moreover have "hd ?t = a" by (subst t) simp
  ultimately have "\<not> isspace a" by simp
  then show ?thesis using Cons by simp
qed

lemma strip_strip: "strip (strip s) = strip s"
proof -
  have "strip (strip s) = rev (dropWhile isspace (rev (strip s)))"
    unfolding strip_def [of "strip s"] by (simp add: strip_no_leading)
  also have "\<dots> = strip s"
    by (simp add: strip_def dropWhile_idem)
  finally show ?thesis .
qed

text \<open>
  C9. Whitespace normalization (collapse every run of whitespace to one space, then trim
  both ends) is idempotent: normalizing a normalized string returns it unchanged.
\<close>

theorem normalize_idempotent: "normalize (normalize s) = normalize s"
proof -
  have "squeezed (strip (sub_ws s))"
    by (rule squeezed_strip [OF squeezed_sub_ws])
  then have "sub_ws (strip (sub_ws s)) = strip (sub_ws s)"
    by (rule sub_ws_squeezed)
  then show ?thesis
    by (simp add: normalize_def strip_strip)
qed

section \<open>The source pattern\<close>

lemma headsI: "rx_match r st = y # zs \<Longrightarrow> heads r st y"
  by (simp add: heads_def)

lemma headsE: "heads r st y \<Longrightarrow> \<exists>zs. rx_match r st = y # zs"
  by (auto simp: heads_def split: list.splits)

lemma heads_Lit: "starts_with l s \<Longrightarrow> heads (Lit l) (s, g) (drop (length l) s, g)"
  by (simp add: heads_def)

lemma heads_Opt_take: "heads a st y \<Longrightarrow> heads (Opt a) st y"
  by (auto simp: heads_def split: list.splits)

lemma heads_Opt_skip: "rx_match a st = [] \<Longrightarrow> heads (Opt a) st st"
  by (simp add: heads_def)

lemma heads_Seq: "heads a st x \<Longrightarrow> heads b x y \<Longrightarrow> heads (Seq a b) st y"
  by (auto simp: heads_def split: list.splits)

lemma heads_Plus:
  "takeWhile P s \<noteq> [] \<Longrightarrow> heads (Plus P) (s, g) (dropWhile P s, g)"
proof -
  assume "takeWhile P s \<noteq> []"
  then obtain n where n: "length (takeWhile P s) = Suc n"
    by (cases "takeWhile P s") auto
  show ?thesis
    by (simp add: heads_def n dropWhile_eq_drop)
qed

lemma heads_Star: "heads (Star P) (s, g) (dropWhile P s, g)"
  by (simp add: heads_def dropWhile_eq_drop)

lemma heads_OneOf:
  assumes "l \<in> set ls" "starts_with l s"
  shows "\<exists>l0\<in>set ls. starts_with l0 s \<and> heads (OneOf ls) (s, g) (drop (length l0) s, g)"
proof -
  let ?f = "filter (\<lambda>l. starts_with l s) ls"
  from assms have "l \<in> set ?f" by simp
  then obtain l0 rest where f: "?f = l0 # rest" by (cases ?f) auto
  then have "l0 \<in> set ?f" by simp
  then have "l0 \<in> set ls" "starts_with l0 s" by auto
  moreover have "heads (OneOf ls) (s, g) (drop (length l0) s, g)"
    by (simp add: heads_def f)
  ultimately show ?thesis by blast
qed

lemma heads_Group:
  "heads a (s, g) (s', g') \<Longrightarrow>
   heads (Group a) (s, g) (s', Some (take (length s - length s') s))"
  by (auto simp: heads_def split: list.splits)

lemma starts_with_append: "starts_with p (p @ r)"
  by (induction p) auto

lemma starts_with_within:
  "c \<notin> set l \<Longrightarrow> starts_with l (a @ c # b) \<Longrightarrow> \<exists>r. a = l @ r"
proof (induction l arbitrary: a)
  case Nil
  then show ?case by simp
next
  case (Cons x l)
  then show ?case by (cases a) auto
qed

lemma suffixes_no_slash: "l \<in> set suffixes \<Longrightarrow> 47 \<notin> set l"
  by (auto simp: suffixes_def lit_def)

lemma group_heads:
  assumes lab: "label \<noteq> []" "\<forall>c\<in>set label. label_char c"
    and suf: "suf \<in> set suffixes"
  shows "heads (Group (Seq (Plus label_char) (Seq (Lit (lit ''.''))
                 (Seq (OneOf suffixes) (Star not_slash)))))
           (label @ 46 # suf @ 47 # path, g) (47 # path, Some (label @ 46 # suf))"
proof -
  let ?s = "label @ 46 # suf @ 47 # path"
  have tw: "takeWhile label_char ?s = label"
    using lab(2) by (simp add: takeWhile_append2 label_char_def)
  have dw: "dropWhile label_char ?s = 46 # suf @ 47 # path"
    using lab(2) by (simp add: dropWhile_append2 label_char_def)
  have h1: "heads (Plus label_char) (?s, g) (46 # suf @ 47 # path, g)"
    using heads_Plus [of label_char ?s g] lab(1) unfolding tw dw by simp
  have h2: "heads (Lit (lit ''.'')) (46 # suf @ 47 # path, g) (suf @ 47 # path, g)"
    using heads_Lit [of "lit ''.''" "46 # suf @ 47 # path" g] by (simp add: lit_def)
  obtain l0 where l0: "l0 \<in> set suffixes" "starts_with l0 (suf @ 47 # path)"
    and h3: "heads (OneOf suffixes) (suf @ 47 # path, g)
               (drop (length l0) (suf @ 47 # path), g)"
    using heads_OneOf [OF suf starts_with_append [of suf "47 # path"], of g] by blast
  obtain r where r: "suf = l0 @ r"
    using starts_with_within [OF suffixes_no_slash [OF l0(1)] l0(2)] by blast
  have "47 \<notin> set suf" by (rule suffixes_no_slash [OF suf])
  then have r47: "47 \<notin> set r" by (simp add: r)
  have dr: "drop (length l0) (suf @ 47 # path) = r @ 47 # path" by (simp add: r)
  have "\<forall>x\<in>set r. not_slash x" using r47 by (auto simp: not_slash_def)
  then have "dropWhile not_slash (r @ 47 # path) = dropWhile not_slash (47 # path)"
    by (simp add: dropWhile_append2)
  then have "dropWhile not_slash (r @ 47 # path) = 47 # path"
    by (simp add: not_slash_def)
  then have "heads (Star not_slash) (r @ 47 # path, g) (47 # path, g)"
    using heads_Star [of not_slash "r @ 47 # path" g] by simp
  then have h4: "heads (Star not_slash) (drop (length l0) (suf @ 47 # path), g) (47 # path, g)"
    unfolding dr .
  have "heads (Seq (Plus label_char) (Seq (Lit (lit ''.''))
                 (Seq (OneOf suffixes) (Star not_slash)))) (?s, g) (47 # path, g)"
    by (intro heads_Seq [OF h1] heads_Seq [OF h2] heads_Seq [OF h3] h4)
  from heads_Group [OF this] show ?thesis by simp
qed

lemma starts_with_exact:
  "starts_with (p @ [c]) (a @ c # b) \<Longrightarrow> c \<notin> set a \<Longrightarrow> c \<notin> set p \<Longrightarrow> a = p"
proof (induction p arbitrary: a)
  case Nil
  then show ?case by (cases a) auto
next
  case (Cons y p)
  then show ?case by (cases a) auto
qed

lemma label_no_dot: "\<forall>c\<in>set label. label_char c \<Longrightarrow> 46 \<notin> set label"
  by (auto simp: label_char_def)

lemma not_www:
  assumes "\<forall>c\<in>set label. label_char c" "label \<noteq> lit ''www''"
  shows "\<not> starts_with (lit ''www.'') (label @ 46 # rest)"
proof
  assume "starts_with (lit ''www.'') (label @ 46 # rest)"
  then have "starts_with (lit ''www'' @ [46]) (label @ 46 # rest)"
    by (simp add: lit_def)
  from starts_with_exact [OF this label_no_dot [OF assms(1)]]
  have "label = lit ''www''" by (simp add: lit_def)
  with assms(2) show False by simp
qed

lemma source_rx_heads:
  assumes lab: "label \<noteq> []" "\<forall>c\<in>set label. label_char c"
    and suf: "suf \<in> set suffixes"
    and ww: "w \<or> label \<noteq> lit ''www''"
  shows "heads source_rx
           (lit ''http'' @ (if tls then lit ''s'' else []) @ lit ''://'' @
              (if w then lit ''www.'' else []) @ label @ 46 # suf @ 47 # path, None)
           (path, Some (label @ 46 # suf))"
proof -
  let ?host = "label @ 46 # suf @ 47 # path"
  let ?G = "Group (Seq (Plus label_char) (Seq (Lit (lit ''.''))
                 (Seq (OneOf suffixes) (Star not_slash))))"
  let ?g = "Some (label @ 46 # suf)"
  have slash: "heads (Opt (Lit (lit ''/''))) (47 # path, ?g) (path, ?g)"
    using heads_Opt_take [OF heads_Lit [of "lit ''/''" "47 # path" ?g]]
    by (simp add: lit_def)
  have t2: "heads (Seq ?G (Opt (Lit (lit ''/'')))) (?host, None) (path, ?g)"
    by (rule heads_Seq [OF group_heads [OF lab suf] slash])
  let ?w = "(if w then lit ''www.'' else []) @ ?host"
  have www: "heads (Opt (Lit (lit ''www.''))) (?w, None) (?host, None)"
  proof (cases w)
    case True
    have "starts_with (lit ''www.'') (lit ''www.'' @ ?host)" by (rule starts_with_append)
    from heads_Opt_take [OF heads_Lit [OF this, of None]] show ?thesis
      using True by simp
  next
    case False
    then have "\<not> starts_with (lit ''www.'') ?host"
      using not_www [OF lab(2)] ww by simp
    then have "rx_match (Lit (lit ''www.'')) (?host, None) = []" by simp
    from heads_Opt_skip [OF this] show ?thesis using False by simp
  qed
  let ?r3 = "Seq (Opt (Lit (lit ''www.''))) (Seq ?G (Opt (Lit (lit ''/''))))"
  have t3: "heads ?r3 (?w, None) (path, ?g)"
    by (rule heads_Seq [OF www t2])
  have colon: "heads (Lit (lit ''://'')) (lit ''://'' @ ?w, None) (?w, None)"
    using heads_Lit [OF starts_with_append [of "lit ''://''" ?w], of None] by simp
  have t4: "heads (Seq (Lit (lit ''://'')) ?r3) (lit ''://'' @ ?w, None) (path, ?g)"
    by (rule heads_Seq [OF colon t3])
  let ?s = "(if tls then lit ''s'' else []) @ lit ''://'' @ ?w"
  have s: "heads (Opt (Lit (lit ''s''))) (?s, None) (lit ''://'' @ ?w, None)"
  proof (cases tls)
    case True
    have "starts_with (lit ''s'') (lit ''s'' @ lit ''://'' @ ?w)" by (rule starts_with_append)
    from heads_Opt_take [OF heads_Lit [OF this, of None]] show ?thesis
      using True by simp
  next
    case False
    have "rx_match (Lit (lit ''s'')) (lit ''://'' @ ?w, None) = []"
      by (simp add: lit_def)
    from heads_Opt_skip [OF this] show ?thesis using False by simp
  qed
  have t5: "heads (Seq (Opt (Lit (lit ''s''))) (Seq (Lit (lit ''://'')) ?r3)) (?s, None) (path, ?g)"
    by (rule heads_Seq [OF s t4])
  have http: "heads (Lit (lit ''http'')) (lit ''http'' @ ?s, None) (?s, None)"
    using heads_Lit [OF starts_with_append [of "lit ''http''" ?s], of None] by simp
  show ?thesis
    unfolding source_rx_def by (rule heads_Seq [OF http t5])
qed

lemma re_search_heads:
  "heads r (s, None) (s', g) \<Longrightarrow> re_search r s = Some g"
  by (cases s) (auto simp: heads_def split: list.splits)

lemma contains_skip:
  "p \<notin> set a \<Longrightarrow> contains (p # ps) (a @ s) = contains (p # ps) s"
  by (induction a) auto

lemma split_on_append:
  "sep \<notin> set a \<Longrightarrow> split_on sep (a @ sep # s) = a # split_on sep s"
  by (induction a) (auto simp: Let_def)

lemma dropWhile_none: "\<forall>c\<in>set s. \<not> P c \<Longrightarrow> dropWhile P s = s"
  by (cases s) auto

lemma strip_id: "\<forall>c\<in>set s. \<not> isspace c \<Longrightarrow> strip s = s"
  by (simp add: strip_def dropWhile_none)

lemma label_char_not_space: "label_char c \<Longrightarrow> \<not> isspace c"
  by (auto simp: label_char_def isspace_def)

lemma pick_label:
  assumes "46 \<notin> set label" "suf \<in> set suffixes"
  shows "(if contains (lit ''.co.kr'') (label @ 46 # suf)
          then index_first (split_on 46 (label @ 46 # suf))
          else index_second_last (split_on 46 (label @ 46 # suf))) = Inr label"
proof -
  have c: "contains (lit ''.co.kr'') (label @ 46 # suf) = contains (lit ''.co.kr'') (46 # suf)"
    using contains_skip [of 46 label "lit ''co.kr''" "46 # suf"] assms(1)
    by (simp add: lit_def)
  have s: "split_on 46 (label @ 46 # suf) = label # split_on 46 suf"
    by (rule split_on_append [OF assms(1)])
  show ?thesis
    unfolding c s using assms(2)
    by (auto simp: suffixes_def lit_def index_first_def index_second_last_def Let_def)
qed

lemma re_search_None_source: "re_search source_rx url = None \<Longrightarrow> extract_source url = Inr UNKNOWN_SOURCE"
  by (simp add: extract_source_def UNKNOWN_SOURCE_def strip_def remove_char_def isspace_def)

text \<open>
  What the pattern of line 140 does find: between the scheme and the known suffix it
  admits an optional \<^verbatim>\<open>www.\<close> and exactly one label over \<^verbatim>\<open>[a-zA-Z0-9-]\<close>. When such a
  host is followed by a slash, the source is that label with its hyphens removed.
\<close>

lemma extract_source_single_label:
  assumes "label \<noteq> []" and "\<forall>c\<in>set label. label_char c"
    and "suf \<in> set suffixes" and "w \<or> label \<noteq> lit ''www''"
  shows "extract_source
           (lit ''http'' @ (if tls then lit ''s'' else []) @ lit ''://'' @
              (if w then lit ''www.'' else []) @ label @ lit ''.'' @ suf @ lit ''/'' @ path) =
         Inr (if remove_char 45 label = [] then UNKNOWN_SOURCE else remove_char 45 label)
       \<and> (re_search source_rx url = None \<longrightarrow> extract_source url = Inr UNKNOWN_SOURCE)"
proof -
  let ?url = "lit ''http'' @ (if tls then lit ''s'' else []) @ lit ''://'' @
              (if w then lit ''www.'' else []) @ label @ 46 # suf @ 47 # path"
  have m: "re_search source_rx ?url = Some (Some (label @ 46 # suf))"
    by (rule re_search_heads [OF source_rx_heads [OF assms]])
  have nd: "46 \<notin> set label" by (rule label_no_dot [OF assms(2)])
  have "\<forall>c\<in>set (remove_char 45 label). \<not> isspace c"
    using assms(2) by (auto simp: remove_char_def label_char_not_space)
  then have st: "strip (remove_char 45 label) = remove_char 45 label"
    by (rule strip_id)
  have "extract_source ?url =
          Inr (if remove_char 45 label = [] then UNKNOWN_SOURCE else remove_char 45 label)"
    unfolding extract_source_def m
    by (simp add: pick_label [OF nd assms(3)] st Let_def del: contains.simps split_on.simps)
  moreover have "lit ''.'' = [46]" "lit ''/'' = [47]" by (simp_all add: lit_def)
  ultimately show ?thesis
    using re_search_None_source [of url] by simp
qed

text \<open>
  C2 at the host \<^verbatim>\<open>news.example.co.kr\<close>, and at the URL that the input field of line 321
  shows as its example: a host with a label before the one that carries the suffix is
  not matched by the pattern, and the source is the sentinel. The host
  \<^verbatim>\<open>www.example.com\<close> gives \<^verbatim>\<open>example\<close>.
\<close>

theorem subdomain_host_gets_sentinel:
  "extract_source (lit ''https://news.example.co.kr/'') = Inr UNKNOWN_SOURCE \<and>
   UNKNOWN_SOURCE \<noteq> lit ''news'' \<and>
   extract_source (lit
     ''https://news.naver.com/main/read.naver?mode=LSD&mid=shm&sid1=105&oid=001&aid=0012345678'')
     = Inr UNKNOWN_SOURCE \<and>
   extract_source (lit ''https://www.example.com/'') = Inr (lit ''example'')"
proof -
  have "re_search source_rx (lit ''https://news.example.co.kr/'') = None"
    by (simp add: lit_def source_rx_def suffixes_def label_char_def not_slash_def)
  then have a: "extract_source (lit ''https://news.example.co.kr/'') = Inr UNKNOWN_SOURCE"
    by (rule re_search_None_source)
  have "re_search source_rx (lit
     ''https://news.naver.com/main/read.naver?mode=LSD&mid=shm&sid1=105&oid=001&aid=0012345678'')
     = None"
    by (simp add: lit_def source_rx_def suffixes_def label_char_def not_slash_def)
  then have b: "extract_source (lit
     ''https://news.naver.com/main/read.naver?mode=LSD&mid=shm&sid1=105&oid=001&aid=0012345678'')
     = Inr UNKNOWN_SOURCE"
    by (rule re_search_None_source)
  have m: "re_search source_rx (lit ''https://www.example.com/'') =
      Some (Some (lit ''example.com''))"
    by (simp add: lit_def source_rx_def suffixes_def label_char_def not_slash_def)
  have c: "extract_source (lit ''https://www.example.com/'') = Inr (lit ''example'')"
    unfolding extract_source_def m
    by (simp add: lit_def index_first_def index_second_last_def Let_def remove_char_def
        strip_def isspace_def)
  from a b c show ?thesis by (simp add: UNKNOWN_SOURCE_def lit_def)
qed

section \<open>Encoding resolution\<close>

lemma decode_replace_total: "e = Replace \<Longrightarrow> \<exists>s. decode cd e bs = Inr s"
proof (induction cd e bs rule: decode.induct)
  case (1 cd e)
  show ?case by simp
next
  case (2 cd e b bs)
  show ?case
  proof (cases "cd (b # bs)")
    case (Decoded u n)
    with 2 obtain s where "decode cd e (drop n bs) = Inr s" by blast
    with Decoded show ?thesis by simp
  next
    case (Invalid n)
    with 2 obtain s where "decode cd e (drop n bs) = Inr s" by blast
    with Invalid 2(3) show ?thesis by simp
  qed
qed

lemma resolve_encoding_cases:
  "resolve_encoding cd r url =
     (if needs_euckr (lower (headers_get (headers r) (lit ''Content-Type'') [])) url
      then Inr (projr (decode cd Replace (content r)), [Info_redecoded])
      else Inr (text_of r, []))"
proof -
  obtain s where "decode cd Replace (content r) = Inr s"
    using decode_replace_total [of Replace cd "content r"] by blast
  then show ?thesis by (simp add: resolve_encoding_def Let_def)
qed

text \<open>
  The codec at work: a make-up sequence of eight bytes is one syllable, a make-up
  sequence cut short takes the rest of the input, and the UTF-8 bytes of U+AC00 read as
  \<^verbatim>\<open>euc-kr\<close> are one Hanja and a stray byte.
\<close>

lemma euc_kr_make_up:
  "decode euc_kr Replace [164, 212, 164, 161, 164, 191, 164, 212] = Inr [44032]"
  by (simp add: euc_kr_def make_up_def choseong_def jungseong_def jongseong_def)

lemma euc_kr_incomplete_make_up: "decode euc_kr Replace [164, 212, 65] = Inr [65533]"
  by (simp add: euc_kr_def make_up_def)

lemma euc_kr_of_utf8: "decode euc_kr Replace [234, 176, 128] = Inr [23195, 65533]"
  by (simp add: euc_kr_def ksx1001_def ksx1001_rows_def ksx1001_EA_def Let_def)

text \<open>
  C10. The handler of line 62 is unreachable: decoding with replacement on error raises
  nothing, for any byte sequence, so encoding resolution never shows the warning of
  line 63 and never falls back to the baseline text after a failed re-decode.
\<close>

theorem decode_error_handler_unreachable:
  "(\<forall>x. decode cd Replace bs \<noteq> Inl x) \<and>
   Warning_euckr_failed \<notin> set (notices_of (resolve_encoding cd r url))"
proof -
  obtain s where "decode cd Replace bs = Inr s"
    using decode_replace_total [of Replace cd bs] by blast
  then have "\<forall>x. decode cd Replace bs \<noteq> Inl x" by simp
  moreover have "Warning_euckr_failed \<notin> set (notices_of (resolve_encoding cd r url))"
    by (simp add: resolve_encoding_cases notices_of_def)
  ultimately show ?thesis by blast
qed

text \<open>
  C7 at a URL whose host is \<^verbatim>\<open>example.com\<close> and whose query names \<^verbatim>\<open>dt.co.kr\<close>, served
  as UTF-8: the test of line 57 holds, and whatever the bytes and the baseline text are,
  the text handed to the parser is the \<^verbatim>\<open>euc-kr\<close> re-decode of the bytes.
\<close>

theorem override_applies_outside_domain:
  "extract_source (lit ''https://example.com/?ref=dt.co.kr'') = Inr (lit ''example'') \<and>
   \<not> contains (lit ''charset=euc-kr'') (lower (lit ''text/html; charset=UTF-8'')) \<and>
   needs_euckr (lower (lit ''text/html; charset=UTF-8''))
     (lit ''https://example.com/?ref=dt.co.kr'') \<and>
   (\<exists>s. decode cd Replace bs = Inr s \<and>
        resolve_encoding cd
          \<lparr>status_code = 200,
           headers = [(lit ''Content-Type'', lit ''text/html; charset=UTF-8'')],
           content = bs, text_of = t\<rparr>
          (lit ''https://example.com/?ref=dt.co.kr'') = Inr (s, [Info_redecoded]))"
proof -
  have m: "re_search source_rx (lit ''https://example.com/?ref=dt.co.kr'') =
      Some (Some (lit ''example.com''))"
    by (simp add: lit_def source_rx_def suffixes_def label_char_def not_slash_def)
  have a: "extract_source (lit ''https://example.com/?ref=dt.co.kr'') = Inr (lit ''example'')"
    unfolding extract_source_def m
    by (simp add: lit_def index_first_def index_second_last_def Let_def remove_char_def
        strip_def isspace_def)
  have b: "\<not> contains (lit ''charset=euc-kr'') (lower (lit ''text/html; charset=UTF-8''))"
    by (simp add: lit_def lower_def lower_char_def)
  have c: "contains (lit ''dt.co.kr'') (lit ''https://example.com/?ref=dt.co.kr'')"
    by (simp add: lit_def)
  obtain s where s: "decode cd Replace bs = Inr s"
    using decode_replace_total [of Replace cd bs] by blast
  have h: "headers_get [(lit ''Content-Type'', lit ''text/html; charset=UTF-8'')]
      (lit ''Content-Type'') [] = lit ''text/html; charset=UTF-8''"
    by (simp add: headers_get_def)
  have d: "resolve_encoding cd
          \<lparr>status_code = 200,
           headers = [(lit ''Content-Type'', lit ''text/html; charset=UTF-8'')],
           content = bs, text_of = t\<rparr>
          (lit ''https://example.com/?ref=dt.co.kr'') = Inr (s, [Info_redecoded])"
    unfolding resolve_encoding_cases by (simp add: h needs_euckr_def c s)
  from a b c s d show ?thesis by (auto simp: needs_euckr_def)
qed

section \<open>Orchestration\<close>

lemma example_source:
  "extract_source (lit ''https://example.com/a'') = Inr (lit ''example'')"
proof -
  have m: "re_search source_rx (lit ''https://example.com/a'') = Some (Some (lit ''example.com''))"
    by (simp add: lit_def source_rx_def suffixes_def label_char_def not_slash_def)
  show ?thesis
    unfolding extract_source_def m
    by (simp add: lit_def index_first_def index_second_last_def Let_def remove_char_def
        strip_def isspace_def)
qed

lemma plain_response_resolves:
  "status < 400 \<Longrightarrow>
   try_block (serving (plain_response status) sp) (lit ''https://example.com/a'') =
     (Inr (extract_title sp, extract_body sp, lit ''example''), [])"
proof -
  assume "status < 400"
  then have s: "raise_for_status (plain_response status) = Inr ()"
    by (simp add: raise_for_status_def plain_response_def)
  have n: "\<not> needs_euckr (lower (lit ''text/html; charset=utf-8'')) (lit ''https://example.com/a'')"
    by (simp add: needs_euckr_def lit_def lower_def lower_char_def)
  have h: "headers_get (headers (plain_response status)) (lit ''Content-Type'') [] =
        lit ''text/html; charset=utf-8''"
    by (simp add: headers_get_def plain_response_def)
  have r: "resolve_encoding euc_kr (plain_response status)
        (lit ''https://example.com/a'') = Inr ([], [])"
    unfolding resolve_encoding_def Let_def h using n by (simp add: plain_response_def)
  show ?thesis
    by (simp add: try_block_def serving_def s r example_source)
qed

lemma scan_no_match:
  "\<forall>sel\<in>set sels. find_and_update (selects sel) clean sp = None \<Longrightarrow>
   scan_selectors sels sp body = (body, sp)"
  by (induction sels) auto

lemma meta_only_body:
  "extract_body [Tag (lit ''meta'') a []] = NO_BODY"
proof -
  have "\<forall>sel\<in>set possible_body_selectors.
          find_and_update (selects sel) clean [Tag (lit ''meta'') a []] = None"
    by (simp add: possible_body_selectors_def lit_def)
  then have "scan_selectors possible_body_selectors [Tag (lit ''meta'') a []] [] =
      ([], [Tag (lit ''meta'') a []])"
    by (rule scan_no_match)
  then show ?thesis
    by (simp add: extract_body_def fallback_needed_def paragraph_fallback_def
        valid_paragraphs_def lit_def)
qed

text \<open>
  C1 at a page whose only element is
  \<^verbatim>\<open><meta property="og:title" content="   ">\<close>: the content is not empty, so line 70
  takes it and line 71 strips it, and the title comes back empty. The same happens for a
  \<^verbatim>\<open>title\<close> element whose text is blank.
\<close>

theorem blank_title_is_returned_empty:
  "extract_info_from_url
     (serving (plain_response 200)
        [Tag (lit ''meta'')
           [(lit ''property'', lit ''og:title''), (lit ''content'', lit ''   '')] []])
     (lit ''https://example.com/a'') = (([], NO_BODY, lit ''example''), []) \<and>
   extract_title [Tag (lit ''title'') [] [NavigableString (lit ''  '')]] = []"
proof -
  let ?sp = "[Tag (lit ''meta'')
           [(lit ''property'', lit ''og:title''), (lit ''content'', lit ''   '')] []]"
  have t: "extract_title ?sp = []"
    by (simp add: extract_title_def find_first_def soup_descendants_def is_og_title_def
        lit_def strip_def isspace_def)
  have t2: "extract_title [Tag (lit ''title'') [] [NavigableString (lit ''  '')]] = []"
    by (simp add: extract_title_def find_first_def soup_descendants_def is_og_title_def
        lit_def strip_def isspace_def)
  have "try_block (serving (plain_response 200) ?sp) (lit ''https://example.com/a'') =
     (Inr (extract_title ?sp, extract_body ?sp, lit ''example''), [])"
    by (rule plain_response_resolves) simp
  then show ?thesis
    by (simp add: extract_info_from_url_def t t2 meta_only_body)
qed

lemma empty_soup_title: "extract_title [] = NO_TITLE"
  by (simp add: extract_title_def find_first_def soup_descendants_def NO_TITLE_def
      strip_def isspace_def)

lemma empty_soup_body: "extract_body [] = NO_BODY"
proof -
  have "scan_selectors possible_body_selectors [] [] = ([], [])"
    by (rule scan_no_match) simp
  then show ?thesis
    by (simp add: extract_body_def fallback_needed_def paragraph_fallback_def
        valid_paragraphs_def)
qed

text \<open>
  C5 (as amended). When the fetch raises a request exception (a timeout, a connection
  failure) or the response has an error status, 400 to 599 (such as 404), the function
  returns three empty strings, which are not the sentinels, and shows the request error
  and nothing else. A response with any other status counts as fetched: it is decoded and
  parsed, and the function returns what the extractors find in it.
\<close>

theorem fetch_failure_gives_empty_strings:
  "(fetch ev url = Inl (RequestException e) \<longrightarrow>
      extract_info_from_url ev url = (([], [], []), [Error_request (RequestException e)])) \<and>
   (fetch ev url = Inr r \<and> 400 \<le> status_code r \<and> status_code r < 600 \<longrightarrow>
      extract_info_from_url ev url =
        (([], [], []), [Error_request (RequestException (HTTPError (status_code r)))])) \<and>
   (fetch ev url = Inr r \<and> \<not> (400 \<le> status_code r \<and> status_code r < 600) \<and>
    resolve_encoding (euc_kr_codec ev) r url = Inr (text_content, shown) \<and>
    parse ev text_content = Inr sp \<and> extract_source url = Inr source \<longrightarrow>
      extract_info_from_url ev url = ((extract_title sp, extract_body sp, source), shown)) \<and>
   ([], [], []) \<noteq> (NO_TITLE, NO_BODY, UNKNOWN_SOURCE)"
  by (auto simp: extract_info_from_url_def try_block_def raise_for_status_def NO_TITLE_def)

theorem fetch_failure_gives_empty_strings_witness:
  "extract_info_from_url
     \<lparr>fetch = (\<lambda>url. Inl (RequestException Timeout)), parse = (\<lambda>t. Inr []),
      euc_kr_codec = euc_kr\<rparr> (lit ''https://example.com/a'') =
     (([], [], []), [Error_request (RequestException Timeout)]) \<and>
   extract_info_from_url (serving (plain_response 404) []) (lit ''https://example.com/a'') =
     (([], [], []), [Error_request (RequestException (HTTPError 404))]) \<and>
   extract_info_from_url (serving (plain_response 204) []) (lit ''https://example.com/a'') =
     ((NO_TITLE, NO_BODY, lit ''example''), [])"
proof -
  let ?ev = "\<lparr>fetch = (\<lambda>url. Inl (RequestException Timeout)), parse = (\<lambda>t. Inr []),
      euc_kr_codec = euc_kr\<rparr>"
  let ?url = "lit ''https://example.com/a''"
  have a: "fetch ?ev ?url = Inl (RequestException Timeout)" by simp
  have b: "fetch (serving (plain_response 404) []) ?url =
      Inr (plain_response 404) \<and> 400 \<le> status_code (plain_response 404) \<and>
      status_code (plain_response 404) < 600"
    by (simp add: serving_def plain_response_def)
  have n: "\<not> needs_euckr (lower (lit ''text/html; charset=utf-8'')) ?url"
    by (simp add: needs_euckr_def lit_def lower_def lower_char_def)
  have h: "headers_get (headers (plain_response 204)) (lit ''Content-Type'') [] =
        lit ''text/html; charset=utf-8''"
    by (simp add: headers_get_def plain_response_def)
  have r: "resolve_encoding euc_kr (plain_response 204) ?url = Inr ([], [])"
    unfolding resolve_encoding_def Let_def h using n by (simp add: plain_response_def)
  have c: "fetch (serving (plain_response 204) []) ?url = Inr (plain_response 204) \<and>
      \<not> (400 \<le> status_code (plain_response 204) \<and> status_code (plain_response 204) < 600) \<and>
      resolve_encoding (euc_kr_codec (serving (plain_response 204) [])) (plain_response 204)
        ?url = Inr ([], []) \<and>
      parse (serving (plain_response 204) []) [] = Inr [] \<and>
      extract_source ?url = Inr (lit ''example'')"
    using r by (simp add: serving_def plain_response_def example_source)
  from fetch_failure_gives_empty_strings [of ?ev ?url Timeout "plain_response 404"] a
  have 1: "extract_info_from_url ?ev ?url =
     (([], [], []), [Error_request (RequestException Timeout)])" by blast
  from fetch_failure_gives_empty_strings [of "serving (plain_response 404) []" ?url Timeout
      "plain_response 404"] b
  have 2: "extract_info_from_url (serving (plain_response 404) []) ?url =
     (([], [], []),
      [Error_request (RequestException (HTTPError (status_code (plain_response 404))))])"
    by blast
  from fetch_failure_gives_empty_strings [of "serving (plain_response 204) []" ?url Timeout
      "plain_response 204" "[]" "[]" "[]" "lit ''example''"] c
  have 3: "extract_info_from_url (serving (plain_response 204) []) ?url =
     ((extract_title [], extract_body [], lit ''example''), [])"
    by blast
  from 1 2 3 show ?thesis
    by (simp add: plain_response_def empty_soup_title empty_soup_body)
qed

theorem status_300_counterexample:
  "raise_for_status (plain_response 300) = Inr () \<and>
   extract_info_from_url (serving (plain_response 300) []) (lit ''https://example.com/a'') =
     ((NO_TITLE, NO_BODY, lit ''example''), []) \<and>
   (NO_TITLE, NO_BODY, lit ''example'') \<noteq> ([], [], [])"
proof -
  have "try_block (serving (plain_response 300) []) (lit ''https://example.com/a'') =
     (Inr (extract_title [], extract_body [], lit ''example''), [])"
    by (rule plain_response_resolves) simp
  then show ?thesis
    by (simp add: extract_info_from_url_def empty_soup_title empty_soup_body
        raise_for_status_def plain_response_def NO_TITLE_def)
qed

text \<open>
  C6. The function returns for every environment and URL, and an exception that leaves
  the \<^verbatim>\<open>try\<close> block and is not a request exception (a failure of the parser after a
  successful fetch, or of an extractor) is caught: the function returns the three
  sentinels and shows a warning.
\<close>

theorem unexpected_failure_gives_sentinels:
  "(try_block ev url = (Inl x, shown) \<and> (\<forall>e. x \<noteq> RequestException e) \<longrightarrow>
      extract_info_from_url ev url =
        ((NO_TITLE, NO_BODY, UNKNOWN_SOURCE), shown @ [Warning_unexpected x])) \<and>
   (fetch ev url = Inr r \<and> raise_for_status r = Inr () \<and>
    resolve_encoding (euc_kr_codec ev) r url = Inr (t, shown') \<and>
    parse ev t = Inl x' \<and> (\<forall>e. x' \<noteq> RequestException e) \<longrightarrow>
      extract_info_from_url ev url =
        ((NO_TITLE, NO_BODY, UNKNOWN_SOURCE), shown' @ [Warning_unexpected x']))"
proof -
  have a: "try_block ev url = (Inl x, shown) \<and> (\<forall>e. x \<noteq> RequestException e) \<longrightarrow>
      extract_info_from_url ev url =
        ((NO_TITLE, NO_BODY, UNKNOWN_SOURCE), shown @ [Warning_unexpected x])"
    by (cases x) (auto simp: extract_info_from_url_def)
  have b: "fetch ev url = Inr r \<and> raise_for_status r = Inr () \<and>
    resolve_encoding (euc_kr_codec ev) r url = Inr (t, shown') \<and>
    parse ev t = Inl x' \<and> (\<forall>e. x' \<noteq> RequestException e) \<longrightarrow>
      extract_info_from_url ev url =
        ((NO_TITLE, NO_BODY, UNKNOWN_SOURCE), shown' @ [Warning_unexpected x'])"
    by (cases x') (auto simp: extract_info_from_url_def try_block_def)
  from a b show ?thesis by blast
qed

theorem unexpected_failure_gives_sentinels_witness:
  "extract_info_from_url
     \<lparr>fetch = (\<lambda>url. Inr (plain_response 200)),
      parse = (\<lambda>t. Inl (OtherException ''RecursionError'')),
      euc_kr_codec = euc_kr\<rparr> (lit ''https://example.com/a'') =
     ((NO_TITLE, NO_BODY, UNKNOWN_SOURCE), [Warning_unexpected (OtherException ''RecursionError'')])"
proof -
  let ?ev = "\<lparr>fetch = (\<lambda>url. Inr (plain_response 200)),
      parse = (\<lambda>t. Inl (OtherException ''RecursionError'')),
      euc_kr_codec = euc_kr\<rparr>"
  let ?url = "lit ''https://example.com/a''"
  have n: "\<not> needs_euckr (lower (lit ''text/html; charset=utf-8'')) ?url"
    by (simp add: needs_euckr_def lit_def lower_def lower_char_def)
  have h: "headers_get (headers (plain_response 200)) (lit ''Content-Type'') [] =
        lit ''text/html; charset=utf-8''"
    by (simp add: headers_get_def plain_response_def)
  have r: "resolve_encoding euc_kr (plain_response 200) ?url = Inr ([], [])"
    unfolding resolve_encoding_def Let_def h using n by (simp add: plain_response_def)
  have p: "fetch ?ev ?url = Inr (plain_response 200) \<and>
      raise_for_status (plain_response 200) = Inr () \<and>
      resolve_encoding (euc_kr_codec ?ev) (plain_response 200) ?url = Inr ([], []) \<and>
      parse ?ev [] = Inl (OtherException ''RecursionError'') \<and>
      (\<forall>e. OtherException ''RecursionError'' \<noteq> RequestException e)"
    using r by (simp add: raise_for_status_def plain_response_def)
  from unexpected_failure_gives_sentinels [of ?ev ?url "OtherException ''RecursionError''" "[]"
      "plain_response 200" "[]" "[]" "OtherException ''RecursionError''"] p
  show ?thesis by simp
qed

text \<open>
  C8. When the test of line 57 holds, the re-decode with replacement on error completes
  for every byte sequence and every table: the text handed to the parser is the
  re-decoded text, in which a sequence that the codec finds invalid has become one
  replacement character U+FFFD with decoding going on behind it, and the \<^verbatim>\<open>try\<close> block
  goes on to parse that text and to extract from it.
\<close>

theorem redecode_always_completes:
  assumes "needs_euckr (lower (headers_get (headers r) (lit ''Content-Type'') [])) url"
  shows "\<exists>s. decode cd Replace (content r) = Inr s \<and>
           resolve_encoding cd r url = Inr (s, [Info_redecoded]) \<and>
           (fetch ev url = Inr r \<and> raise_for_status r = Inr () \<and> euc_kr_codec ev = cd \<longrightarrow>
              try_block ev url =
                (case parse ev s of
                   Inl x \<Rightarrow> (Inl x, [Info_redecoded])
                 | Inr sp \<Rightarrow>
                     (case extract_source url of
                        Inl x \<Rightarrow> (Inl x, [Info_redecoded])
                      | Inr source \<Rightarrow>
                          (Inr (extract_title sp, extract_body sp, source),
                           [Info_redecoded])))) \<and>
           (cd (b # bs) = Invalid n \<longrightarrow>
              (\<exists>s'. decode cd Replace (drop n bs) = Inr s' \<and>
                    decode cd Replace (b # bs) = Inr (65533 # s')))"
proof -
  obtain s where s: "decode cd Replace (content r) = Inr s"
    using decode_replace_total [of Replace cd "content r"] by blast
  have re: "resolve_encoding cd r url = Inr (s, [Info_redecoded])"
    unfolding resolve_encoding_cases using assms s by simp
  have tb: "fetch ev url = Inr r \<and> raise_for_status r = Inr () \<and> euc_kr_codec ev = cd \<longrightarrow>
              try_block ev url =
                (case parse ev s of
                   Inl x \<Rightarrow> (Inl x, [Info_redecoded])
                 | Inr sp \<Rightarrow>
                     (case extract_source url of
                        Inl x \<Rightarrow> (Inl x, [Info_redecoded])
                      | Inr source \<Rightarrow>
                          (Inr (extract_title sp, extract_body sp, source),
                           [Info_redecoded])))"
    using re by (auto simp: try_block_def Let_def split: sum.splits)
  have inv: "cd (b # bs) = Invalid n \<longrightarrow>
              (\<exists>s'. decode cd Replace (drop n bs) = Inr s' \<and>
                    decode cd Replace (b # bs) = Inr (65533 # s'))"
  proof
    assume i: "cd (b # bs) = Invalid n"
    obtain s' where "decode cd Replace (drop n bs) = Inr s'"
      using decode_replace_total [of Replace cd "drop n bs"] by blast
    with i show "\<exists>s'. decode cd Replace (drop n bs) = Inr s' \<and>
                    decode cd Replace (b # bs) = Inr (65533 # s')" by simp
  qed
  from s re tb inv show ?thesis by blast
qed

lemma ksx1001_B0A1: "ksx1001 176 161 = Some 44032"
  by (simp add: ksx1001_def ksx1001_rows_def ksx1001_B0_def Let_def)

lemma euc_kr_sample_decode:
  "decode euc_kr Replace [176, 161, 255, 65] = Inr [44032, 65533, 65]"
proof -
  have 1: "euc_kr [176, 161, 255, 65] = Decoded 44032 1"
    by (simp add: euc_kr_def ksx1001_B0A1)
  have 2: "euc_kr [255, 65] = Invalid 0"
    by (simp add: euc_kr_def ksx1001_def)
  have 3: "euc_kr [65] = Decoded 65 0"
    by (simp add: euc_kr_def)
  show ?thesis by (simp add: 1 2 3)
qed

theorem redecode_always_completes_witness:
  "needs_euckr (lower (headers_get (headers (declared_euckr [176, 161, 255, 65]))
     (lit ''Content-Type'') [])) (lit ''https://example.com/a'') \<and>
   euc_kr [255, 65] = Invalid 0 \<and>
   decode euc_kr Replace [176, 161, 255, 65] = Inr [44032, 65533, 65] \<and>
   resolve_encoding euc_kr (declared_euckr [176, 161, 255, 65]) (lit ''https://example.com/a'') =
     Inr ([44032, 65533, 65], [Info_redecoded]) \<and>
   extract_info_from_url (serving (declared_euckr [176, 161, 255, 65]) [])
     (lit ''https://example.com/a'') =
     ((NO_TITLE, NO_BODY, lit ''example''), [Info_redecoded])"
proof -
  let ?r = "declared_euckr [176, 161, 255, 65]"
  let ?url = "lit ''https://example.com/a''"
  let ?ev = "serving ?r []"
  have h: "headers_get (headers ?r) (lit ''Content-Type'') [] = lit ''text/html; charset=EUC-KR''"
    by (simp add: headers_get_def declared_euckr_def)
  have n: "needs_euckr (lower (headers_get (headers ?r) (lit ''Content-Type'') [])) ?url"
    unfolding h by (simp add: needs_euckr_def lit_def lower_def lower_char_def)
  have i: "euc_kr [255, 65] = Invalid 0"
    by (simp add: euc_kr_def ksx1001_def)
  have c: "content ?r = [176, 161, 255, 65]" by (simp add: declared_euckr_def)
  have e: "fetch ?ev ?url = Inr ?r \<and> raise_for_status ?r = Inr () \<and> euc_kr_codec ?ev = euc_kr"
    by (simp add: serving_def raise_for_status_def declared_euckr_def)
  from redecode_always_completes [OF n, of euc_kr ?ev 255 "[65]" 0]
  obtain s where s: "decode euc_kr Replace (content ?r) = Inr s"
    and re: "resolve_encoding euc_kr ?r ?url = Inr (s, [Info_redecoded])"
    and tb: "fetch ?ev ?url = Inr ?r \<and> raise_for_status ?r = Inr () \<and> euc_kr_codec ?ev = euc_kr \<longrightarrow>
       try_block ?ev ?url =
         (case parse ?ev s of
            Inl x \<Rightarrow> (Inl x, [Info_redecoded])
          | Inr sp \<Rightarrow>
              (case extract_source ?url of
                 Inl x \<Rightarrow> (Inl x, [Info_redecoded])
               | Inr source \<Rightarrow>
                   (Inr (extract_title sp, extract_body sp, source), [Info_redecoded])))"
    by blast
  have sv: "s = [44032, 65533, 65]"
    using s unfolding c euc_kr_sample_decode by simp
  have "try_block ?ev ?url =
      (Inr (extract_title [], extract_body [], lit ''example''), [Info_redecoded])"
    using tb e by (simp add: serving_def example_source)
  then have x: "extract_info_from_url ?ev ?url =
      ((NO_TITLE, NO_BODY, lit ''example''), [Info_redecoded])"
    by (simp add: extract_info_from_url_def empty_soup_title empty_soup_body)
  from n i euc_kr_sample_decode re sv x show ?thesis by simp
qed

section \<open>Body extraction\<close>

lemma squeezed_no_run: "squeezed s \<Longrightarrow> \<not> has_ws_run s"
  by (induction s rule: squeezed.induct) auto

lemma squeezed_normalize: "squeezed (normalize s)"
  unfolding normalize_def by (rule squeezed_strip [OF squeezed_sub_ws])

lemma scan_body_origin:
  "scan_selectors sels sp body = (b, sp') \<Longrightarrow> b = body \<or> (\<exists>x. b = normalize x)"
proof (induction sels arbitrary: sp body)
  case Nil
  then show ?case by simp
next
  case (Cons sel sels)
  show ?case
  proof (cases "find_and_update (selects sel) clean sp")
    case None
    with Cons show ?thesis by simp
  next
    case (Some r)
    obtain sp1 el where r: "r = (sp1, el)" by (cases r)
    let ?b = "normalize (get_text [32] True el)"
    show ?thesis
    proof (cases "150 < length ?b")
      case True
      with Cons.prems Some r have "b = ?b" by (simp add: Let_def)
      then show ?thesis by blast
    next
      case False
      with Cons.prems Some r have "scan_selectors sels sp1 ?b = (b, sp')"
        by (simp add: Let_def)
      from Cons.IH [OF this] show ?thesis by blast
    qed
  qed
qed

lemma scan_body_squeezed:
  "scan_selectors sels sp [] = (b, sp') \<Longrightarrow> squeezed b"
  using scan_body_origin [of sels sp "[]" b sp'] by (auto simp: squeezed_normalize)

lemma sub_ws_plain: "\<forall>c\<in>set s. \<not> isspace c \<Longrightarrow> sub_ws s = s"
  by (induction s) auto

lemma normalize_plain: "\<forall>c\<in>set s. \<not> isspace c \<Longrightarrow> normalize s = s"
  by (simp add: normalize_def sub_ws_plain strip_id)

lemma NO_BODY_nonempty: "NO_BODY \<noteq> []"
  by (simp add: NO_BODY_def)

lemma extract_body_cases:
  assumes "scan_selectors possible_body_selectors sp [] = (sel_body, sp')"
  shows "extract_body sp =
     (if 150 \<le> length sel_body then sel_body
      else if valid_paragraphs sp' \<noteq> [] \<and> 100 < length (temp_body sp') then temp_body sp'
      else if sel_body = [] then NO_BODY else sel_body)"
proof -
  have "150 \<le> length sel_body \<Longrightarrow> sel_body \<noteq> []" by auto
  then show ?thesis
    using assms
    by (auto simp: extract_body_def fallback_needed_def paragraph_fallback_def Let_def)
qed

lemma short_article_scan:
  "scan_selectors possible_body_selectors
     [Tag (lit ''article'') [] [NavigableString (lit ''short text'')]] [] =
   (lit ''short text'', [Tag (lit ''article'') [] [NavigableString (lit ''short text'')]])"
  by (simp add: possible_body_selectors_def lit_def get_text_def normalize_def strip_def
      isspace_def Let_def)

lemma short_article_paragraphs:
  "valid_paragraphs [Tag (lit ''article'') [] [NavigableString (lit ''short text'')]] = []"
  by (simp add: valid_paragraphs_def lit_def)

lemma short_article_body:
  "extract_body [Tag (lit ''article'') [] [NavigableString (lit ''short text'')]] =
   lit ''short text''"
  unfolding extract_body_cases [OF short_article_scan] short_article_paragraphs
  by (simp add: lit_def)

text \<open>
  C3 (as amended). A body that is not the sentinel is not empty and is whitespace
  normalized: it has no run of two or more whitespace characters. It is the text of a
  catalog selector of at least 150 characters, or the paragraph-fallback text, longer than
  100 characters, or else the text of the last selector that found an element, shorter
  than 150 characters, kept because the paragraph fallback gave nothing longer than 100
  characters.
\<close>

theorem body_is_normalized:
  assumes "extract_body sp \<noteq> NO_BODY"
    and "scan_selectors possible_body_selectors sp [] = (sel_body, sp')"
  shows "\<not> has_ws_run (extract_body sp) \<and> extract_body sp \<noteq> [] \<and>
     ((extract_body sp = sel_body \<and> 150 \<le> length sel_body) \<or>
      (extract_body sp = temp_body sp' \<and> 100 < length (temp_body sp') \<and>
         valid_paragraphs sp' \<noteq> []) \<or>
      (extract_body sp = sel_body \<and> length sel_body < 150 \<and>
         (valid_paragraphs sp' = [] \<or> length (temp_body sp') \<le> 100)))"
proof -
  note c = extract_body_cases [OF assms(2)]
  have sq_sel: "squeezed sel_body" by (rule scan_body_squeezed [OF assms(2)])
  have sq_tmp: "squeezed (temp_body sp')"
    unfolding temp_body_def by (rule squeezed_normalize)
  have "squeezed (extract_body sp)"
    using assms(1) sq_sel sq_tmp unfolding c by (auto split: if_splits)
  then have 1: "\<not> has_ws_run (extract_body sp)" by (rule squeezed_no_run)
  have 2: "extract_body sp \<noteq> []"
    unfolding c by (auto simp: NO_BODY_nonempty)
  have 3: "(extract_body sp = sel_body \<and> 150 \<le> length sel_body) \<or>
      (extract_body sp = temp_body sp' \<and> 100 < length (temp_body sp') \<and>
         valid_paragraphs sp' \<noteq> []) \<or>
      (extract_body sp = sel_body \<and> length sel_body < 150 \<and>
         (valid_paragraphs sp' = [] \<or> length (temp_body sp') \<le> 100))"
    using assms(1) unfolding c by (auto split: if_splits)
  from 1 2 3 show ?thesis by blast
qed

theorem body_is_normalized_witness:
  "extract_body [Tag (lit ''article'') [] [NavigableString (lit ''short text'')]] \<noteq> NO_BODY \<and>
   \<not> has_ws_run (extract_body [Tag (lit ''article'') [] [NavigableString (lit ''short text'')]]) \<and>
   extract_body [Tag (lit ''article'') [] [NavigableString (lit ''short text'')]] =
     lit ''short text''"
proof -
  have n: "extract_body [Tag (lit ''article'') [] [NavigableString (lit ''short text'')]] \<noteq> NO_BODY"
    unfolding short_article_body by (simp add: lit_def NO_BODY_def)
  from body_is_normalized [OF n short_article_scan] n short_article_body
  show ?thesis by simp
qed

theorem short_selector_text_counterexample:
  "extract_info_from_url
     (serving (plain_response 200)
        [Tag (lit ''article'') [] [NavigableString (lit ''short text'')]])
     (lit ''https://example.com/a'') =
     ((NO_TITLE, lit ''short text'', lit ''example''), []) \<and>
   lit ''short text'' \<noteq> NO_BODY \<and> length (lit ''short text'') = 10 \<and>
   valid_paragraphs [Tag (lit ''article'') [] [NavigableString (lit ''short text'')]] = []"
proof -
  let ?sp = "[Tag (lit ''article'') [] [NavigableString (lit ''short text'')]]"
  have t: "extract_title ?sp = NO_TITLE"
    by (simp add: extract_title_def find_first_def soup_descendants_def is_og_title_def
        lit_def NO_TITLE_def strip_def isspace_def)
  have "try_block (serving (plain_response 200) ?sp) (lit ''https://example.com/a'') =
     (Inr (extract_title ?sp, extract_body ?sp, lit ''example''), [])"
    by (rule plain_response_resolves) simp
  then have "extract_info_from_url (serving (plain_response 200) ?sp)
      (lit ''https://example.com/a'') = ((NO_TITLE, lit ''short text'', lit ''example''), [])"
    by (simp add: extract_info_from_url_def t short_article_body)
  moreover have "lit ''short text'' \<noteq> NO_BODY" "length (lit ''short text'') = 10"
    by (simp_all add: lit_def NO_BODY_def)
  ultimately show ?thesis using short_article_paragraphs by simp
qed

lemma plain_div_text:
  assumes "\<forall>c\<in>set t. \<not> isspace c" and "t \<noteq> []"
  shows "normalize (get_text [32] True (Tag n a [NavigableString t])) = t"
proof -
  have "strip t = t" by (rule strip_id [OF assms(1)])
  then have "get_text [32] True (Tag n a [NavigableString t]) = t"
    using assms(2) by (simp add: get_text_def)
  then show ?thesis by (simp add: normalize_plain [OF assms(1)])
qed

lemma scan_at_exactly_150:
  assumes "\<forall>c\<in>set t. \<not> isspace c" and "length t = 150"
  shows "scan_selectors possible_body_selectors
     [Tag (lit ''div'') [(lit ''class'', lit ''article_view'')] [NavigableString t],
      Tag (lit ''article'') [] [NavigableString (lit ''x'')]] [] =
   (lit ''x'',
    [Tag (lit ''div'') [(lit ''class'', lit ''article_view'')] [NavigableString t],
     Tag (lit ''article'') [] [NavigableString (lit ''x'')]])"
proof -
  have ne: "t \<noteq> []" using assms(2) by auto
  have d: "normalize (get_text [32] True
      (Tag [100, 105, 118] [([99, 108, 97, 115, 115],
         [97, 114, 116, 105, 99, 108, 101, 95, 118, 105, 101, 119])] [NavigableString t])) = t"
    by (rule plain_div_text [OF assms(1) ne])
  have x: "normalize (get_text [32] True
      (Tag [97, 114, 116, 105, 99, 108, 101] [] [NavigableString [120]])) = [120]"
    by (simp add: get_text_def normalize_def strip_def isspace_def)
  have tk: "tokens [97, 114, 116, 105, 99, 108, 101, 95, 118, 105, 101, 119] =
      [[97, 114, 116, 105, 99, 108, 101, 95, 118, 105, 101, 119]]"
    by (simp add: tokens_def isspace_def Let_def)
  show ?thesis
    by (simp add: possible_body_selectors_def lit_def d x tk assms(2) Let_def
        del: get_text_def)
qed

lemma scan_stops_above_150:
  assumes "find_and_update (selects sel) clean sp = Some (sp', el)"
    and "150 < length (normalize (get_text [32] True el))"
  shows "scan_selectors (sel # sels) sp body = (normalize (get_text [32] True el), sp') \<and>
     \<not> fallback_needed (normalize (get_text [32] True el))"
  using assms by (auto simp: fallback_needed_def Let_def)

text \<open>
  C4 at a page whose \<^verbatim>\<open><div class="article_view">\<close> holds exactly 150 characters of
  text and which has an \<^verbatim>\<open><article>x</article>\<close> after it: the text of the first selector
  has 150 characters, yet the scan goes on, the \<^verbatim>\<open>article\<close> selector overwrites the body
  with \<^verbatim>\<open>x\<close>, and the paragraph fallback runs.
\<close>

theorem scan_goes_on_at_150:
  "length (normalize (get_text [32] True
     (Tag (lit ''div'') [(lit ''class'', lit ''article_view'')]
        [NavigableString (replicate 150 97)]))) = 150 \<and>
   scan_selectors possible_body_selectors
     [Tag (lit ''div'') [(lit ''class'', lit ''article_view'')]
        [NavigableString (replicate 150 97)],
      Tag (lit ''article'') [] [NavigableString (lit ''x'')]] [] =
   (lit ''x'',
    [Tag (lit ''div'') [(lit ''class'', lit ''article_view'')]
       [NavigableString (replicate 150 97)],
     Tag (lit ''article'') [] [NavigableString (lit ''x'')]]) \<and>
   fallback_needed (lit ''x'') \<and>
   extract_body
     [Tag (lit ''div'') [(lit ''class'', lit ''article_view'')]
        [NavigableString (replicate 150 97)],
      Tag (lit ''article'') [] [NavigableString (lit ''x'')]] = lit ''x''"
proof -
  define t :: pystr where "t = replicate 150 97"
  have p: "\<forall>c\<in>set t. \<not> isspace c" by (simp add: t_def isspace_def)
  have l: "length t = 150" by (simp add: t_def)
  have ne: "t \<noteq> []" using l by auto
  let ?sp = "[Tag (lit ''div'') [(lit ''class'', lit ''article_view'')] [NavigableString t],
      Tag (lit ''article'') [] [NavigableString (lit ''x'')]]"
  have a: "length (normalize (get_text [32] True
     (Tag (lit ''div'') [(lit ''class'', lit ''article_view'')] [NavigableString t]))) = 150"
    by (simp only: plain_div_text [OF p ne] l)
  note s = scan_at_exactly_150 [OF p l]
  have f: "fallback_needed (lit ''x'')" by (simp add: fallback_needed_def lit_def)
  have v: "valid_paragraphs ?sp = []" by (simp add: valid_paragraphs_def lit_def)
  have b: "extract_body ?sp = lit ''x''"
    unfolding extract_body_cases [OF s] v by (simp add: lit_def)
  from a s f b show ?thesis unfolding t_def by blast
qed

end
